theory Spec2Isabelle
  imports Complex_Main
begin

section \<open>Conventions\<close>

text \<open>
  The trading engine is JavaScript. Its numbers are modelled as exact reals: every
  property below is about the accounting and control logic, not about rounding.
  The operator \<open>a || d\<close> of the source yields \<open>d\<close> when \<open>a\<close> is
  missing or falsy; for a number, falsy means zero.
  Timestamps, log texts and free-form metadata fields are left out of the records;
  no branch of the modelled functions reads them. Where the evaluation of a log
  call's arguments throws, the throw is part of the model.
\<close>

definition or_default :: "real option \<Rightarrow> real \<Rightarrow> real" where
  "or_default a d = (case a of None \<Rightarrow> d | Some v \<Rightarrow> if v = 0 then d else v)"

definition or_default_bool :: "bool option \<Rightarrow> bool \<Rightarrow> bool" where
  "or_default_bool a d = (case a of None \<Rightarrow> d | Some v \<Rightarrow> if v then v else d)"

definition truthy :: "real option \<Rightarrow> bool" where
  "truthy a = (case a of None \<Rightarrow> False | Some v \<Rightarrow> v \<noteq> 0)"

section \<open>Execution engine (mockTrader.js)\<close>

datatype side = Long | Short

datatype position_status = Open | Closed | Liquidated

datatype order_type = Maker | Taker

datatype error =
    AccountNotInitialized
  | PriceUnavailable
  | InsufficientMargin
  | PositionNotFound
  | PositionAlreadyClosed
  | ExitPriceUnavailable
  | NotAFunction

record fees_config =
  cfg_fees_enabled :: "bool option"
  cfg_maker :: "real option"
  cfg_taker :: "real option"

record slippage_config =
  cfg_slippage_enabled :: "bool option"
  cfg_percentage :: "real option"

record mock_config =
  cfg_initialBalance :: "real option"
  cfg_maxLeverage :: "real option"
  cfg_defaultLeverage :: "real option"
  cfg_fees :: "fees_config option"
  cfg_slippage :: "slippage_config option"

record account =
  balance :: real
  equity :: real
  margin :: real
  freeMargin :: real
  marginLevel :: real
  maxLeverage :: real
  defaultLeverage :: real
  fees_enabled :: bool
  fees_maker :: real
  fees_taker :: real
  slippage_enabled :: bool
  slippage_percentage :: real
  totalTrades :: nat
  winningTrades :: nat
  losingTrades :: nat
  totalPnL :: real
  maxDrawdown :: real
  maxBalance :: real

record position =
  pos_id :: string
  symbol :: string
  pos_side :: side
  status :: position_status
  size :: real
  leverage :: real
  entryPrice :: real
  currentPrice :: real
  notionalValue :: real
  marginUsed :: real
  stopLoss :: real
  takeProfit :: "real option"
  unrealizedPnL :: real
  realizedPnL :: real
  fees :: real
  totalFees :: real
  exitPrice :: "real option"
  closeReason :: "string option"
  ts_enabled :: bool
  ts_triggerPrice :: "real option"
  ts_highestProfit :: real

text \<open>
  \<open>activePositions\<close> is a JavaScript \<open>Map\<close>: an association list in insertion
  order. \<open>set\<close> on a present key replaces the value in place, on an absent key it
  appends; \<open>delete\<close> removes the key.
\<close>

fun map_set :: "('k \<times> 'v) list \<Rightarrow> 'k \<Rightarrow> 'v \<Rightarrow> ('k \<times> 'v) list" where
  "map_set [] k v = [(k, v)]"
| "map_set ((k', v') # m) k v = (if k' = k then (k, v) # m else (k', v') # map_set m k v)"

definition map_delete :: "('k \<times> 'v) list \<Rightarrow> 'k \<Rightarrow> ('k \<times> 'v) list" where
  "map_delete m k = filter (\<lambda>e. fst e \<noteq> k) m"

record trader =
  mockAccount :: "account option"
  activePositions :: "(string \<times> position) list"
  tradeHistory :: "position list"

definition initializeMockAccount :: "mock_config \<Rightarrow> account" where
  "initializeMockAccount config =
     \<lparr> balance = or_default (cfg_initialBalance config) 10000,
       equity = or_default (cfg_initialBalance config) 10000,
       margin = 0,
       freeMargin = or_default (cfg_initialBalance config) 10000,
       marginLevel = 0,
       maxLeverage = or_default (cfg_maxLeverage config) 20,
       defaultLeverage = or_default (cfg_defaultLeverage config) 10,
       fees_enabled =
         or_default_bool (Option.bind (cfg_fees config) cfg_fees_enabled) True,
       fees_maker = or_default (Option.bind (cfg_fees config) cfg_maker) (2 / 100),
       fees_taker = or_default (Option.bind (cfg_fees config) cfg_taker) (4 / 100),
       slippage_enabled =
         or_default_bool (Option.bind (cfg_slippage config) cfg_slippage_enabled) True,
       slippage_percentage =
         or_default (Option.bind (cfg_slippage config) cfg_percentage) (1 / 10),
       totalTrades = 0,
       winningTrades = 0,
       losingTrades = 0,
       totalPnL = 0,
       maxDrawdown = 0,
       maxBalance = or_default (cfg_initialBalance config) 10000 \<rparr>"

definition init_trader :: "mock_config \<Rightarrow> trader" where
  "init_trader config =
     \<lparr> mockAccount = Some (initializeMockAccount config),
       activePositions = [],
       tradeHistory = [] \<rparr>"

definition applySlippage :: "account \<Rightarrow> real \<Rightarrow> side \<Rightarrow> real" where
  "applySlippage a price sd =
     (if \<not> slippage_enabled a then price
      else (case sd of
              Long \<Rightarrow> price * (1 + slippage_percentage a / 100)
            | Short \<Rightarrow> price * (1 - slippage_percentage a / 100)))"

definition calculateFee :: "account \<Rightarrow> real \<Rightarrow> order_type \<Rightarrow> real" where
  "calculateFee a notional ot =
     (if \<not> fees_enabled a then 0
      else notional * (case ot of Maker \<Rightarrow> fees_maker a / 100 | Taker \<Rightarrow> fees_taker a / 100))"

definition calculatePositionPnL :: "position \<Rightarrow> real \<Rightarrow> real" where
  "calculatePositionPnL p price =
     (case pos_side p of
        Long \<Rightarrow> (price - entryPrice p) * size p
      | Short \<Rightarrow> - (price - entryPrice p) * size p)"

text \<open>
  \<open>calculateATRStopLoss\<close>: the ATR of the 15m timeframe comes from the indicator
  library (\<open>None\<close> when it has no result or the lookup throws); the multiplier is
  the configuration value \<open>STRATEGY.atr.multiplier\<close>.
\<close>

definition calculateATRStopLoss :: "real option \<Rightarrow> real \<Rightarrow> real \<Rightarrow> side \<Rightarrow> real" where
  "calculateATRStopLoss atr multiplier entry sd =
     (case atr of
        Some atrValue \<Rightarrow>
          (case sd of Long \<Rightarrow> entry - atrValue * multiplier
                    | Short \<Rightarrow> entry + atrValue * multiplier)
      | None \<Rightarrow>
          (case sd of Long \<Rightarrow> entry * (1 - 2 / 100)
                    | Short \<Rightarrow> entry * (1 + 2 / 100)))"

definition getCurrentUnrealizedPnL :: "(string \<times> position) list \<Rightarrow> real" where
  "getCurrentUnrealizedPnL ps = sum_list (map (\<lambda>e. unrealizedPnL (snd e)) ps)"

text \<open>
  What the environment hands to one \<open>openMarketOrder\<close> call: the price lookup
  (cache, then exchange), the ATR lookup, the configured ATR multiplier and the
  identifier that \<open>generatePositionId\<close> draws from the clock and the random source.
\<close>

record open_env =
  env_price :: "real option"
  env_atr :: "real option"
  env_atrMultiplier :: real
  env_newId :: string

definition openMarketOrder ::
  "trader \<Rightarrow> string \<Rightarrow> side \<Rightarrow> real \<Rightarrow> real option \<Rightarrow> open_env \<Rightarrow> error + (position \<times> trader)"
where
  "openMarketOrder t smb sd quantity lev env =
     (case mockAccount t of
        None \<Rightarrow> Inl AccountNotInitialized
      | Some a \<Rightarrow>
          if \<not> truthy (env_price env) then Inl PriceUnavailable
          else
            let price = the (env_price env);
                positionLeverage = or_default lev (defaultLeverage a);
                positionSize = quantity;
                notional = positionSize * price;
                marginRequired = notional / positionLeverage
            in if marginRequired > freeMargin a then Inl InsufficientMargin
               else
                 let executionPrice = applySlippage a price sd;
                     feeAmount = calculateFee a notional Taker;
                     sl = calculateATRStopLoss (env_atr env) (env_atrMultiplier env)
                            executionPrice sd;
                     p = \<lparr> pos_id = env_newId env, symbol = smb, pos_side = sd,
                           status = Open, size = positionSize,
                           leverage = positionLeverage,
                           entryPrice = executionPrice, currentPrice = executionPrice,
                           notionalValue = notional, marginUsed = marginRequired,
                           stopLoss = sl, takeProfit = None,
                           unrealizedPnL = 0, realizedPnL = 0,
                           fees = feeAmount, totalFees = feeAmount,
                           exitPrice = None, closeReason = None,
                           ts_enabled = False, ts_triggerPrice = None,
                           ts_highestProfit = 0 \<rparr>;
                     a' = a \<lparr> margin := margin a + marginRequired,
                              freeMargin := freeMargin a - marginRequired,
                              balance := balance a - feeAmount,
                              totalTrades := totalTrades a + 1 \<rparr>
                 in Inr (p, t \<lparr> mockAccount := Some a',
                                activePositions :=
                                  map_set (activePositions t) (pos_id p) p \<rparr>))"

definition opposite :: "side \<Rightarrow> side" where
  "opposite sd = (if sd = Long then Short else Long)"

text \<open>
  The account block of \<open>closePosition\<close> (release of the margin, balance, equity,
  total P&L, win/loss counters, peak balance and drawdown), for the closed position
  \<open>p\<close>; \<open>unrealized\<close> is \<open>getCurrentUnrealizedPnL()\<close> at that point.
\<close>

definition closeAccountUpdate :: "account \<Rightarrow> position \<Rightarrow> real \<Rightarrow> real \<Rightarrow> real \<Rightarrow> account" where
  "closeAccountUpdate a p netPnL exitFee unrealized =
     (let bal = balance a + (netPnL - exitFee);
          a1 = a \<lparr> margin := margin a - marginUsed p,
                   freeMargin := freeMargin a + marginUsed p,
                   balance := bal,
                   equity := bal + unrealized,
                   totalPnL := totalPnL a + netPnL \<rparr>;
          a2 = (if netPnL > 0
                then a1 \<lparr> winningTrades := winningTrades a1 + 1 \<rparr>
                else a1 \<lparr> losingTrades := losingTrades a1 + 1 \<rparr>);
          a3 = (if balance a2 > maxBalance a2
                then a2 \<lparr> maxBalance := balance a2 \<rparr> else a2);
          drawdown = (maxBalance a3 - balance a3) / maxBalance a3 * 100
      in if drawdown > maxDrawdown a3
         then a3 \<lparr> maxDrawdown := drawdown \<rparr> else a3)"

text \<open>
  \<open>Utils.Format.duration\<close>. Inside the \<open>Utils\<close> module the name \<open>Math\<close> is bound
  by \<open>const Math = { sma, ema, ... }\<close> to the module's own table of calculation
  helpers, which shadows the built-in object for the whole module. The table has no
  \<open>floor\<close>, so the first statement of \<open>duration\<close>, a call of \<open>Math.floor\<close>, throws a
  \<open>TypeError\<close>. Its argument is a difference of timestamps, which the records leave
  out; the formatted text would only be logged.
\<close>

definition Utils_Math :: "string list" where
  "Utils_Math =
     [''sma'', ''ema'', ''rsi'', ''atr'', ''rma'', ''stdDev'', ''gaussianWeight'',
      ''percentChange'', ''percentDifference'', ''normalize'', ''correlation'']"

definition Format_duration :: "error + unit" where
  "Format_duration = (if ''floor'' \<in> set Utils_Math then Inr () else Inl NotAFunction)"

text \<open>
  \<open>closePosition(positionId, reason, currentPrice)\<close>; \<open>lookup\<close> is the result of
  \<open>getCurrentPrice\<close>, consulted only when no usable \<open>currentPrice\<close> is passed.
  The equity is recomputed while the position is still in the map, as in the source.
  The result is what the call returns or throws, together with the state it leaves:
  a guard that fails throws before anything is written; past the guards the position,
  the account, the map and the history are updated, and then the arguments of the
  closing log call are evaluated, among them \<open>Utils.Format.duration(...)\<close>. When that
  throws, \<open>safeAsync\<close> rethrows it: the \<open>position_closed\<close> event is not dispatched and
  the position is not returned, but the updates stay.
\<close>

definition closePosition ::
  "trader \<Rightarrow> string \<Rightarrow> string \<Rightarrow> real option \<Rightarrow> real option
     \<Rightarrow> (error + position) \<times> trader"
where
  "closePosition t positionId reason cur lookup =
     (case map_of (activePositions t) positionId of
        None \<Rightarrow> (Inl PositionNotFound, t)
      | Some p \<Rightarrow>
          if status p \<noteq> Open then (Inl PositionAlreadyClosed, t)
          else
            let exitP = (if truthy cur then cur else lookup)
            in if \<not> truthy exitP then (Inl ExitPriceUnavailable, t)
               else (case mockAccount t of
                  None \<Rightarrow> (Inl AccountNotInitialized, t)
                | Some a \<Rightarrow>
                    let executionPrice = applySlippage a (the exitP) (opposite (pos_side p));
                        pnl = calculatePositionPnL p executionPrice;
                        exitFee = calculateFee a (size p * executionPrice) Taker;
                        netPnL = pnl - exitFee;
                        p' = p \<lparr> status := Closed,
                                 currentPrice := executionPrice,
                                 exitPrice := Some executionPrice,
                                 closeReason := Some reason,
                                 realizedPnL := netPnL,
                                 totalFees := totalFees p + exitFee \<rparr>;
                        a' = closeAccountUpdate a p netPnL exitFee
                               (getCurrentUnrealizedPnL (activePositions t));
                        hist = tradeHistory t @ [p'];
                        hist' = (if length hist > 1000
                                 then drop (length hist - 1000) hist else hist);
                        t' = t \<lparr> mockAccount := Some a',
                                 activePositions :=
                                   map_delete (activePositions t) positionId,
                                 tradeHistory := hist' \<rparr>
                    in (case Format_duration of
                          Inl e \<Rightarrow> (Inl e, t')
                        | Inr d \<Rightarrow> (Inr p', t'))))"
subsection \<open>Operation sequences and the accounting vocabulary\<close>

definition default_config :: mock_config where
  "default_config = \<lparr> cfg_initialBalance = None, cfg_maxLeverage = None,
     cfg_defaultLeverage = None, cfg_fees = None, cfg_slippage = None \<rparr>"

definition scenario_env :: open_env where
  "scenario_env = \<lparr> env_price = Some 50000, env_atr = None, env_atrMultiplier = 3 / 2,
     env_newId = ''pos_1'' \<rparr>"

definition scenario_position :: position where
  "scenario_position =
     \<lparr> pos_id = ''pos_1'', symbol = ''BTCUSDT'', pos_side = Long, status = Open,
       size = 1, leverage = 10, entryPrice = 50050, currentPrice = 50050,
       notionalValue = 50000, marginUsed = 5000, stopLoss = 49049, takeProfit = None,
       unrealizedPnL = 0, realizedPnL = 0, fees = 20, totalFees = 20,
       exitPrice = None, closeReason = None, ts_enabled = False,
       ts_triggerPrice = None, ts_highestProfit = 0 \<rparr>"

definition scenario_trader :: trader where
  "scenario_trader =
     \<lparr> mockAccount = Some ((initializeMockAccount default_config)
         \<lparr> margin := 5000, freeMargin := 5000, balance := 9980, totalTrades := 1 \<rparr>),
       activePositions = [(''pos_1'', scenario_position)],
       tradeHistory = [] \<rparr>"

text \<open>The execution price of a close: the exit price after slippage against the trader.\<close>

definition close_price :: "account \<Rightarrow> position \<Rightarrow> real option \<Rightarrow> real option \<Rightarrow> real" where
  "close_price a p cur lookup =
     applySlippage a (the (if truthy cur then cur else lookup)) (opposite (pos_side p))"


datatype op =
    OpOpen string side real "real option" open_env
  | OpClose string string "real option" "real option"

text \<open>
  One operation of a sequence: what the call returns or throws, and the state it
  leaves. An operation is performed when it has changed the books: an open that
  returns its position, or a close that has passed its guards, which archives the
  closed position in the trade history before its closing log call throws.
  \<open>performed\<close> gives the position opened, or the position the close archived.
\<close>

fun apply_op :: "trader \<Rightarrow> op \<Rightarrow> (error + position) \<times> trader" where
  "apply_op t (OpOpen smb sd quantity lev env) =
     (case openMarketOrder t smb sd quantity lev env of
        Inl e \<Rightarrow> (Inl e, t)
      | Inr (p, t') \<Rightarrow> (Inr p, t'))"
| "apply_op t (OpClose positionId reason cur lookup) = closePosition t positionId reason cur lookup"

definition performed :: "op \<Rightarrow> (error + position) \<times> trader \<Rightarrow> position option" where
  "performed x r =
     (case fst r of
        Inr p \<Rightarrow> Some p
      | Inl e \<Rightarrow>
          (case x of
             OpOpen _ _ _ _ _ \<Rightarrow> None
           | OpClose _ _ _ _ \<Rightarrow>
               if e = NotAFunction then Some (last (tradeHistory (snd r))) else None))"

text \<open>
  A sequence of performed operations, with the state before and after each and the
  position it opened or closed; \<open>None\<close> when some operation of the list is not
  performed (a guard of it fails).
\<close>

fun run_ops :: "trader \<Rightarrow> op list \<Rightarrow> (trader \<times> op \<times> position \<times> trader) list option" where
  "run_ops t [] = Some []"
| "run_ops t (x # xs) =
     (case performed x (apply_op t x) of
        None \<Rightarrow> None
      | Some p \<Rightarrow>
          (case run_ops (snd (apply_op t x)) xs of
             None \<Rightarrow> None
           | Some steps \<Rightarrow> Some ((t, x, p, snd (apply_op t x)) # steps)))"

fun ids_fresh :: "trader \<Rightarrow> op list \<Rightarrow> bool" where
  "ids_fresh t [] = True"
| "ids_fresh t (x # xs) =
     ((case x of OpOpen _ _ _ _ env \<Rightarrow> env_newId env \<notin> fst ` set (activePositions t)
               | OpClose _ _ _ _ \<Rightarrow> True)
      \<and> (case performed x (apply_op t x) of
            None \<Rightarrow> True
          | Some p \<Rightarrow> ids_fresh (snd (apply_op t x)) xs))"

definition account_balance :: "trader \<Rightarrow> real" where
  "account_balance t = (case mockAccount t of Some a \<Rightarrow> balance a | None \<Rightarrow> 0)"

definition op_fee :: "trader \<Rightarrow> op \<Rightarrow> position \<Rightarrow> real" where
  "op_fee t x p =
     (case mockAccount t of
        None \<Rightarrow> 0
      | Some a \<Rightarrow>
         (case x of
            OpOpen _ _ _ _ _ \<Rightarrow> calculateFee a (notionalValue p) Taker
          | OpClose _ _ _ _ \<Rightarrow> calculateFee a (size p * the (exitPrice p)) Taker))"

definition step_balanced :: "trader \<times> op \<times> position \<times> trader \<Rightarrow> bool" where
  "step_balanced s =
     (case s of (t, x, p, t') \<Rightarrow>
        account_balance t' = account_balance t - op_fee t x p + realizedPnL p)"

definition margin_consistent :: "trader \<Rightarrow> bool" where
  "margin_consistent t =
     (case mockAccount t of
        None \<Rightarrow> False
      | Some a \<Rightarrow> margin a = sum_list (map (\<lambda>e. marginUsed (snd e)) (activePositions t))
                  \<and> distinct (map fst (activePositions t)))"

definition step_margin_consistent :: "trader \<times> op \<times> position \<times> trader \<Rightarrow> bool" where
  "step_margin_consistent s = (case s of (t, x, p, t') \<Rightarrow> margin_consistent t')"

definition scenario_ops :: "op list" where
  "scenario_ops =
     [OpOpen ''BTCUSDT'' Long 1 (Some 10) scenario_env,
      OpClose ''pos_1'' ''manual'' (Some 52000) None]"

subsection \<open>Revaluation and the engine's own trailing rule (mockTrader.js)\<close>

text \<open>
  \<open>checkStopLossTakeProfit\<close> returns the close reason, \<open>None\<close> for
  \<open>shouldClose = false\<close>. A stop-loss of zero is falsy and never triggers.
\<close>

definition checkStopLossTakeProfit :: "position \<Rightarrow> real \<Rightarrow> string option" where
  "checkStopLossTakeProfit p price =
     (case pos_side p of
        Long \<Rightarrow>
          if stopLoss p \<noteq> 0 \<and> price \<le> stopLoss p then Some ''stop_loss''
          else if truthy (takeProfit p) \<and> price \<ge> the (takeProfit p) then Some ''take_profit''
          else None
      | Short \<Rightarrow>
          if stopLoss p \<noteq> 0 \<and> price \<ge> stopLoss p then Some ''stop_loss''
          else if truthy (takeProfit p) \<and> price \<le> the (takeProfit p) then Some ''take_profit''
          else None)"

text \<open>
  \<open>updateTrailingStop(position, currentPrice)\<close>; \<open>trailingPercent\<close> is the
  configuration value \<open>STRATEGY.risk.trailingStopPercentage\<close> (default 30).
\<close>

definition updateTrailingStop :: "real \<Rightarrow> position \<Rightarrow> real \<Rightarrow> position" where
  "updateTrailingStop trailingPercent p price =
     (if \<not> ts_enabled p then p
      else
        let currentPnL = calculatePositionPnL p price;
            p1 = (if currentPnL > ts_highestProfit p
                  then p \<lparr> ts_highestProfit := currentPnL \<rparr> else p);
            profitFromEntry = \<bar>currentPnL\<bar>;
            trailingDistance = profitFromEntry * (trailingPercent / 100)
        in (case pos_side p1 of
              Long \<Rightarrow>
                let proposedStopLoss = price - trailingDistance
                in if proposedStopLoss > stopLoss p1
                   then p1 \<lparr> stopLoss := proposedStopLoss \<rparr> else p1
            | Short \<Rightarrow>
                let proposedStopLoss = price + trailingDistance
                in if proposedStopLoss < stopLoss p1
                   then p1 \<lparr> stopLoss := proposedStopLoss \<rparr> else p1))"

text \<open>
  The body that \<open>updateActivePositions\<close> runs for one position, up to the
  stop-loss/take-profit check: \<open>cached\<close> is the cached ticker price.
\<close>

definition revaluePosition :: "real \<Rightarrow> real option \<Rightarrow> position \<Rightarrow> position" where
  "revaluePosition trailingPercent cached p =
     (if \<not> truthy cached then p
      else
        let price = the cached;
            p1 = p \<lparr> currentPrice := price,
                     unrealizedPnL := calculatePositionPnL p price \<rparr>
        in updateTrailingStop trailingPercent p1 price)"

definition updatePositionPrice :: "real \<Rightarrow> position \<Rightarrow> position" where
  "updatePositionPrice price p =
     p \<lparr> currentPrice := price, unrealizedPnL := calculatePositionPnL p price \<rparr>"

definition enableTrailingStop :: "position \<Rightarrow> position" where
  "enableTrailingStop p =
     (let initialRisk = \<bar>entryPrice p - stopLoss p\<bar>;
          triggerProfit = initialRisk * 2
      in p \<lparr> ts_enabled := True,
              ts_triggerPrice :=
                Some (entryPrice p + (if pos_side p = Long then triggerProfit
                                      else - triggerProfit)) \<rparr>)"

section \<open>Trailing-stop engine (TrailingStop module)\<close>

datatype trailing_type = Percentage | ATR | Fixed | Step | Adaptive

datatype trailing_status = Waiting | Active | Triggered | Disabled

datatype breakeven_mode = Immediate | Threshold | Progressive

text \<open>
  A strategy configuration is an open-ended object. The fields that some presets
  leave out are options: arithmetic on a missing field gives NaN in the source, which
  is falsy as a candidate stop and false in every comparison, so a candidate computed
  from a missing field is \<open>None\<close> here. A step is (profitPercent, trailingPercent).
\<close>

record trailing_config =
  tc_type :: trailing_type
  tc_triggerPercent :: real
  tc_trailingPercent :: "real option"
  tc_atrMultiplier :: "real option"
  tc_fixedDistance :: "real option"
  tc_steps :: "(real \<times> real) list"
  tc_breakevenMode :: breakeven_mode
  tc_minProfit :: "real option"

record trailing =
  tr_positionId :: string
  tr_side :: side
  tr_config :: trailing_config
  tr_status :: trailing_status
  tr_isActive :: bool
  tr_isBreakevenSet :: bool
  tr_entryPrice :: real
  tr_currentPrice :: real
  tr_initialStopLoss :: real
  tr_currentStopLoss :: real
  tr_highestProfit :: real
  tr_highestPrice :: real
  tr_currentProfit :: real
  tr_currentProfitPercent :: real
  tr_triggerPrice :: real
  tr_triggerProfit :: real
  tr_atrValue :: "real option"
  tr_breakevenPrice :: "real option"

definition calculateTriggerPrice :: "trailing \<Rightarrow> trailing" where
  "calculateTriggerPrice tr =
     (let initialRisk = \<bar>tr_entryPrice tr - tr_initialStopLoss tr\<bar>;
          triggerProfit = initialRisk * tc_triggerPercent (tr_config tr)
      in tr \<lparr> tr_triggerPrice :=
                 (case tr_side tr of Long \<Rightarrow> tr_entryPrice tr + triggerProfit
                                   | Short \<Rightarrow> tr_entryPrice tr - triggerProfit),
               tr_triggerProfit := triggerProfit \<rparr>)"

definition startTrailing :: "position \<Rightarrow> trailing_config \<Rightarrow> trailing" where
  "startTrailing p config =
     calculateTriggerPrice
       \<lparr> tr_positionId = pos_id p, tr_side = pos_side p, tr_config = config,
         tr_status = Waiting, tr_isActive = False, tr_isBreakevenSet = False,
         tr_entryPrice = entryPrice p, tr_currentPrice = currentPrice p,
         tr_initialStopLoss = stopLoss p, tr_currentStopLoss = stopLoss p,
         tr_highestProfit = 0, tr_highestPrice = currentPrice p,
         tr_currentProfit = 0, tr_currentProfitPercent = 0,
         tr_triggerPrice = 0, tr_triggerProfit = 0,
         tr_atrValue = None, tr_breakevenPrice = None \<rparr>"

definition updateProfitMetrics :: "trailing \<Rightarrow> trailing" where
  "updateProfitMetrics tr =
     (let profit = (case tr_side tr of
                      Long \<Rightarrow> tr_currentPrice tr - tr_entryPrice tr
                    | Short \<Rightarrow> tr_entryPrice tr - tr_currentPrice tr);
          tr1 = tr \<lparr> tr_currentProfit := profit,
                     tr_currentProfitPercent := profit / tr_entryPrice tr * 100 \<rparr>
      in if tr_currentProfit tr1 > tr_highestProfit tr1
         then tr1 \<lparr> tr_highestProfit := tr_currentProfit tr1,
                    tr_highestPrice := tr_currentPrice tr1 \<rparr>
         else tr1)"

definition calculatePercentageTrailing :: "trailing \<Rightarrow> real option" where
  "calculatePercentageTrailing tr =
     (case tc_trailingPercent (tr_config tr) of
        None \<Rightarrow> None
      | Some tp \<Rightarrow>
          let trailingDistance = tr_highestProfit tr * (tp / 100)
          in Some (case tr_side tr of Long \<Rightarrow> tr_highestPrice tr - trailingDistance
                                    | Short \<Rightarrow> tr_highestPrice tr + trailingDistance))"

definition calculateATRTrailing :: "trailing \<Rightarrow> real option" where
  "calculateATRTrailing tr =
     (if \<not> truthy (tr_atrValue tr) then None
      else (case tc_atrMultiplier (tr_config tr) of
              None \<Rightarrow> None
            | Some m \<Rightarrow>
                let atrDistance = the (tr_atrValue tr) * m
                in Some (case tr_side tr of Long \<Rightarrow> tr_currentPrice tr - atrDistance
                                          | Short \<Rightarrow> tr_currentPrice tr + atrDistance)))"

definition calculateFixedTrailing :: "trailing \<Rightarrow> real option" where
  "calculateFixedTrailing tr =
     (let fixedDistance = or_default (tc_fixedDistance (tr_config tr)) (1 / 100)
      in Some (case tr_side tr of Long \<Rightarrow> tr_currentPrice tr * (1 - fixedDistance)
                                | Short \<Rightarrow> tr_currentPrice tr * (1 + fixedDistance)))"

text \<open>The loop of \<open>calculateStepTrailing\<close>: the last step whose profit level is reached.\<close>

fun select_step :: "real \<Rightarrow> (real \<times> real) list \<Rightarrow> (real \<times> real) option \<Rightarrow> (real \<times> real) option" where
  "select_step profitPercent [] selected = selected"
| "select_step profitPercent (st # rest) selected =
     select_step profitPercent rest
       (if profitPercent \<ge> fst st then Some st else selected)"

definition calculateStepTrailing :: "trailing \<Rightarrow> real option" where
  "calculateStepTrailing tr =
     (case select_step (tr_currentProfitPercent tr) (tc_steps (tr_config tr)) None of
        None \<Rightarrow> None
      | Some st \<Rightarrow>
          let trailingDistance = tr_highestProfit tr * (snd st / 100)
          in Some (case tr_side tr of Long \<Rightarrow> tr_highestPrice tr - trailingDistance
                                    | Short \<Rightarrow> tr_highestPrice tr + trailingDistance))"

text \<open>\<open>cachedVolatility\<close> is the cache entry \<open>volatility_<symbol>\<close>.\<close>

definition getVolatilityAdjustment :: "real option \<Rightarrow> real" where
  "getVolatilityAdjustment cachedVolatility = (or_default cachedVolatility 2 - 2) * 5"

definition calculateAdaptiveTrailing :: "real option \<Rightarrow> trailing \<Rightarrow> real option" where
  "calculateAdaptiveTrailing cachedVolatility tr =
     (let adaptivePercent = max 20 (min 50 (30 + getVolatilityAdjustment cachedVolatility));
          trailingDistance = tr_highestProfit tr * (adaptivePercent / 100)
      in Some (case tr_side tr of Long \<Rightarrow> tr_highestPrice tr - trailingDistance
                                | Short \<Rightarrow> tr_highestPrice tr + trailingDistance))"

definition calculateNewStopLoss :: "real option \<Rightarrow> trailing \<Rightarrow> real option" where
  "calculateNewStopLoss cachedVolatility tr =
     (case tc_type (tr_config tr) of
        Percentage \<Rightarrow> calculatePercentageTrailing tr
      | ATR \<Rightarrow> calculateATRTrailing tr
      | Fixed \<Rightarrow> calculateFixedTrailing tr
      | Step \<Rightarrow> calculateStepTrailing tr
      | Adaptive \<Rightarrow> calculateAdaptiveTrailing cachedVolatility tr)"

definition shouldUpdateStopLoss :: "trailing \<Rightarrow> real option \<Rightarrow> real \<Rightarrow> bool" where
  "shouldUpdateStopLoss tr newStopLoss oldStopLoss =
     (if \<not> truthy newStopLoss then False
      else (case tr_side tr of
              Long \<Rightarrow> the newStopLoss > oldStopLoss
            | Short \<Rightarrow> the newStopLoss < oldStopLoss))"

definition updatePositionStopLoss :: "trailing \<Rightarrow> position \<Rightarrow> real \<Rightarrow> trailing \<times> position" where
  "updatePositionStopLoss tr p newStopLoss =
     (tr \<lparr> tr_currentStopLoss := newStopLoss \<rparr>, p \<lparr> stopLoss := newStopLoss \<rparr>)"

definition updateActiveTrailing :: "real option \<Rightarrow> trailing \<Rightarrow> position \<Rightarrow> trailing \<times> position" where
  "updateActiveTrailing cachedVolatility tr p =
     (let oldStopLoss = tr_currentStopLoss tr;
          newStopLoss = calculateNewStopLoss cachedVolatility tr
      in if truthy newStopLoss \<and> shouldUpdateStopLoss tr newStopLoss oldStopLoss
         then updatePositionStopLoss tr p (the newStopLoss)
         else (tr, p))"

text \<open>
  \<open>activateTrailing\<close> computes a first candidate and drops it: only the status changes.
\<close>

definition activateTrailing :: "trailing \<Rightarrow> trailing" where
  "activateTrailing tr = tr \<lparr> tr_status := Active, tr_isActive := True \<rparr>"

definition checkTriggerActivation :: "trailing \<Rightarrow> trailing" where
  "checkTriggerActivation tr =
     (let shouldActivate =
            (case tr_side tr of Long \<Rightarrow> tr_currentPrice tr \<ge> tr_triggerPrice tr
                              | Short \<Rightarrow> tr_currentPrice tr \<le> tr_triggerPrice tr)
      in if shouldActivate then activateTrailing tr else tr)"

text \<open>
  \<open>setBreakeven\<close> records the break-even price on the trailing context; the call
  that would move the position's stop is commented out in the source.
\<close>

definition setBreakeven :: "trailing \<Rightarrow> trailing" where
  "setBreakeven tr =
     tr \<lparr> tr_isBreakevenSet := True,
          tr_breakevenPrice := Some (tr_entryPrice tr + tr_entryPrice tr * (1 / 1000)) \<rparr>"

definition checkBreakevenActivation :: "trailing \<Rightarrow> trailing" where
  "checkBreakevenActivation tr =
     (let shouldSetBreakeven =
            (case tc_breakevenMode (tr_config tr) of
               Immediate \<Rightarrow> tr_currentProfitPercent tr > 0
             | Threshold \<Rightarrow>
                 (case tc_minProfit (tr_config tr) of
                    None \<Rightarrow> False | Some mp \<Rightarrow> tr_currentProfitPercent tr \<ge> mp)
             | Progressive \<Rightarrow>
                 (case tc_minProfit (tr_config tr) of
                    None \<Rightarrow> False | Some mp \<Rightarrow> tr_currentProfitPercent tr \<ge> mp * 2))
      in if shouldSetBreakeven then setBreakeven tr else tr)"

text \<open>
  \<open>updateTrailing\<close> for a trailing context and the position it refers to. The
  result has no context when the position is no longer open (\<open>stopTrailing\<close>).
\<close>

definition updateTrailing :: "real option \<Rightarrow> trailing \<Rightarrow> position \<Rightarrow> trailing option \<times> position" where
  "updateTrailing cachedVolatility tr p =
     (if status p \<noteq> Open then (None, p)
      else
        let tr1 = updateProfitMetrics
                    (tr \<lparr> tr_currentPrice := currentPrice p,
                          tr_currentStopLoss := stopLoss p \<rparr>);
            tr2 = (if tr_status tr1 = Waiting then checkTriggerActivation tr1 else tr1);
            tr3 = (if \<not> tr_isBreakevenSet tr2 then checkBreakevenActivation tr2 else tr2)
        in if tr_status tr3 = Active
           then (case updateActiveTrailing cachedVolatility tr3 p of
                   (tr4, p') \<Rightarrow> (Some tr4, p'))
           else (Some tr3, p))"

subsection \<open>The life of one position under both engines\<close>

text \<open>
  Everything that can happen to an open position and its trailing context between
  the open and the close: the engine's revaluation tick, a price event, enabling the
  engine's own trailing rule, and the operations of the trailing-stop engine
  (start, periodic update, arrival of ATR data, the manual controls).
\<close>

datatype pos_event =
    MockTick real "real option"
  | PriceEvent real
  | EnableTrailing
  | StartTrailing trailing_config
  | TrailTick "real option"
  | AtrData real
  | ForceBreakeven
  | ForceActivation
  | UpdateTrailingConfig trailing_config
  | StopTrailing

record pos_state =
  ps_position :: position
  ps_trailing :: "trailing option"

fun pos_step :: "pos_state \<Rightarrow> pos_event \<Rightarrow> pos_state" where
  "pos_step s (MockTick trailingPercent cached) =
     s \<lparr> ps_position := revaluePosition trailingPercent cached (ps_position s) \<rparr>"
| "pos_step s (PriceEvent price) =
     s \<lparr> ps_position := updatePositionPrice price (ps_position s) \<rparr>"
| "pos_step s EnableTrailing =
     s \<lparr> ps_position := enableTrailingStop (ps_position s) \<rparr>"
| "pos_step s (StartTrailing config) =
     s \<lparr> ps_trailing := Some (startTrailing (ps_position s) config) \<rparr>"
| "pos_step s (TrailTick cachedVolatility) =
     (case ps_trailing s of
        None \<Rightarrow> s
      | Some tr \<Rightarrow>
          (case updateTrailing cachedVolatility tr (ps_position s) of
             (tr', p') \<Rightarrow> \<lparr> ps_position = p', ps_trailing = tr' \<rparr>))"
| "pos_step s (AtrData v) =
     s \<lparr> ps_trailing := map_option (\<lambda>tr. tr \<lparr> tr_atrValue := Some v \<rparr>) (ps_trailing s) \<rparr>"
| "pos_step s ForceBreakeven =
     s \<lparr> ps_trailing :=
           map_option (\<lambda>tr. if \<not> tr_isBreakevenSet tr then setBreakeven tr else tr)
             (ps_trailing s) \<rparr>"
| "pos_step s ForceActivation =
     s \<lparr> ps_trailing :=
           map_option (\<lambda>tr. if tr_status tr = Waiting then activateTrailing tr else tr)
             (ps_trailing s) \<rparr>"
| "pos_step s (UpdateTrailingConfig config) =
     s \<lparr> ps_trailing := map_option (\<lambda>tr. tr \<lparr> tr_config := config \<rparr>) (ps_trailing s) \<rparr>"
| "pos_step s StopTrailing = s \<lparr> ps_trailing := None \<rparr>"

text \<open>The stop-loss values of the position before and after each event.\<close>

fun stop_trace :: "pos_state \<Rightarrow> pos_event list \<Rightarrow> real list" where
  "stop_trace s [] = [stopLoss (ps_position s)]"
| "stop_trace s (e # es) = stopLoss (ps_position s) # stop_trace (pos_step s e) es"

definition trailing_matches :: "pos_state \<Rightarrow> bool" where
  "trailing_matches s =
     (case ps_trailing s of
        None \<Rightarrow> True
      | Some tr \<Rightarrow> tr_side tr = pos_side (ps_position s))"

definition more_favourable :: "side \<Rightarrow> real \<Rightarrow> real \<Rightarrow> bool" where
  "more_favourable sd new old = (case sd of Long \<Rightarrow> new > old | Short \<Rightarrow> new < old)"

definition proposed_stop :: "real \<Rightarrow> position \<Rightarrow> real \<Rightarrow> real" where
  "proposed_stop trailingPercent p price =
     (case pos_side p of
        Long \<Rightarrow> price - \<bar>calculatePositionPnL p price\<bar> * (trailingPercent / 100)
      | Short \<Rightarrow> price + \<bar>calculatePositionPnL p price\<bar> * (trailingPercent / 100))"

definition not_worse :: "side \<Rightarrow> real \<Rightarrow> real \<Rightarrow> bool" where
  "not_worse sd old new = (new = old \<or> more_favourable sd new old)"

definition conservative_config :: trailing_config where
  "conservative_config =
     \<lparr> tc_type = Percentage, tc_triggerPercent = 2, tc_trailingPercent = Some 50,
       tc_atrMultiplier = None, tc_fixedDistance = None, tc_steps = [],
       tc_breakevenMode = Threshold, tc_minProfit = Some (1 / 2) \<rparr>"

definition scenario_pos_state :: pos_state where
  "scenario_pos_state = \<lparr> ps_position = scenario_position, ps_trailing = None \<rparr>"

definition scenario_events :: "pos_event list" where
  "scenario_events =
     [StartTrailing conservative_config, PriceEvent 53000, TrailTick None,
      PriceEvent 52000, TrailTick None, EnableTrailing,
      MockTick 30 (Some 54000), MockTick 30 (Some 52900)]"

section \<open>Risk manager (RiskManager module)\<close>

datatype risk_level = Low | Medium | High | Critical

datatype risk_action = Monitor | Warn | Reduce | Stop

text \<open>
  The fields of the risk profile that the modelled functions read or write. The
  three configured values are parameters of \<open>initializeRiskProfile\<close>.
\<close>

record risk_profile =
  rp_level :: risk_level
  rp_maxPositionSize :: real
  rp_maxPositions :: real
  rp_maxLeverage :: real
  rp_maxDailyLoss :: real
  rp_maxDrawdown :: real
  rp_panicModeThreshold :: real

record thresholds =
  th_dailyLoss :: real
  th_drawdown :: real
  th_positions :: real

record risk_limits =
  lim_low :: thresholds
  lim_medium :: thresholds
  lim_high :: thresholds
  lim_critical :: thresholds

record daily_stats =
  ds_startingBalance :: real
  ds_currentBalance :: real
  ds_dailyPnL :: real
  ds_dailyLossPercent :: real
  ds_maxDrawdownToday :: real
  ds_tradesOpened :: nat
  ds_tradesClosed :: nat

record trigger =
  trig_type :: string
  trig_value :: real
  trig_limit :: real

datatype risk_event =
    RiskLevelChange risk_level risk_level
  | EmergencyTrigger trigger
  | RiskReduction string real real
  | RiskStop risk_level

text \<open>
  \<open>riskEvents\<close> is the recorded history, \<open>dispatched\<close> the names of the events
  handed to \<open>document.dispatchEvent\<close>, both oldest first.
\<close>

record risk_manager =
  riskProfile :: risk_profile
  riskLimits :: risk_limits
  emergencyMode :: bool
  dailyStats :: daily_stats
  riskEvents :: "risk_event list"
  dispatched :: "string list"

record metrics =
  m_dailyLossPercent :: real
  m_drawdownPercent :: real
  m_activePositions :: nat
  m_totalExposure :: real
  m_unrealizedPnL :: real
  m_marginLevel :: real

definition initializeRiskProfile :: "real \<Rightarrow> real \<Rightarrow> real \<Rightarrow> risk_profile" where
  "initializeRiskProfile maxPositionSize maxLev maxDailyLoss =
     \<lparr> rp_level = Medium,
       rp_maxPositionSize = maxPositionSize,
       rp_maxPositions = 5,
       rp_maxLeverage = maxLev,
       rp_maxDailyLoss = maxDailyLoss,
       rp_maxDrawdown = 15,
       rp_panicModeThreshold = 25 \<rparr>"

definition setupRiskLimits :: "risk_profile \<Rightarrow> risk_limits" where
  "setupRiskLimits rp =
     \<lparr> lim_low =
         \<lparr> th_dailyLoss = rp_maxDailyLoss rp * (3 / 10),
           th_drawdown = rp_maxDrawdown rp * (3 / 10),
           th_positions = of_int \<lceil>rp_maxPositions rp * (6 / 10)\<rceil> \<rparr>,
       lim_medium =
         \<lparr> th_dailyLoss = rp_maxDailyLoss rp * (6 / 10),
           th_drawdown = rp_maxDrawdown rp * (6 / 10),
           th_positions = of_int \<lceil>rp_maxPositions rp * (8 / 10)\<rceil> \<rparr>,
       lim_high =
         \<lparr> th_dailyLoss = rp_maxDailyLoss rp * (8 / 10),
           th_drawdown = rp_maxDrawdown rp * (8 / 10),
           th_positions = rp_maxPositions rp \<rparr>,
       lim_critical =
         \<lparr> th_dailyLoss = rp_maxDailyLoss rp,
           th_drawdown = rp_maxDrawdown rp,
           th_positions = 0 \<rparr> \<rparr>"

definition risk_action_of :: "risk_level \<Rightarrow> risk_action" where
  "risk_action_of l = (case l of Low \<Rightarrow> Monitor | Medium \<Rightarrow> Warn
                               | High \<Rightarrow> Reduce | Critical \<Rightarrow> Stop)"

definition initializeDailyStats :: "trader \<Rightarrow> daily_stats" where
  "initializeDailyStats t =
     (let b = (case mockAccount t of None \<Rightarrow> 0 | Some a \<Rightarrow> balance a)
      in \<lparr> ds_startingBalance = b, ds_currentBalance = b, ds_dailyPnL = 0,
           ds_dailyLossPercent = 0, ds_maxDrawdownToday = 0,
           ds_tradesOpened = 0, ds_tradesClosed = 0 \<rparr>)"

definition init_risk_manager :: "real \<Rightarrow> real \<Rightarrow> real \<Rightarrow> trader \<Rightarrow> risk_manager" where
  "init_risk_manager maxPositionSize maxLev maxDailyLoss t =
     (let rp = initializeRiskProfile maxPositionSize maxLev maxDailyLoss
      in \<lparr> riskProfile = rp, riskLimits = setupRiskLimits rp, emergencyMode = False,
           dailyStats = initializeDailyStats t, riskEvents = [], dispatched = [] \<rparr>)"

text \<open>
  \<open>updateRiskMetrics\<close>. The source divides by the starting balance and by the peak
  balance; a zero divisor gives Infinity or NaN there and 0 here, so the properties
  below are stated at non-zero divisors.
\<close>

definition updateRiskMetrics :: "risk_manager \<Rightarrow> trader \<Rightarrow> risk_manager" where
  "updateRiskMetrics rm t =
     (case mockAccount t of
        None \<Rightarrow> rm
      | Some a \<Rightarrow>
          let ds = dailyStats rm;
              pnl = balance a - ds_startingBalance ds;
              ds1 = ds \<lparr> ds_currentBalance := balance a,
                         ds_dailyPnL := pnl,
                         ds_dailyLossPercent := \<bar>pnl / ds_startingBalance ds\<bar> * 100 \<rparr>;
              currentDrawdown = (maxBalance a - balance a) / maxBalance a * 100;
              ds2 = (if currentDrawdown > ds_maxDrawdownToday ds1
                     then ds1 \<lparr> ds_maxDrawdownToday := currentDrawdown \<rparr> else ds1)
          in rm \<lparr> dailyStats := ds2 \<rparr>)"

definition calculateTotalExposure :: "position list \<Rightarrow> real" where
  "calculateTotalExposure ps = sum_list (map (\<lambda>p. \<bar>notionalValue p\<bar>) ps)"

definition getCurrentRiskMetrics :: "risk_manager \<Rightarrow> trader \<Rightarrow> metrics" where
  "getCurrentRiskMetrics rm t =
     (case mockAccount t of
        None \<Rightarrow>
          \<lparr> m_dailyLossPercent = 0, m_drawdownPercent = 0, m_activePositions = 0,
            m_totalExposure = 0, m_unrealizedPnL = 0, m_marginLevel = 0 \<rparr>
      | Some a \<Rightarrow>
          \<lparr> m_dailyLossPercent = ds_dailyLossPercent (dailyStats rm),
            m_drawdownPercent = maxDrawdown a,
            m_activePositions = length (activePositions t),
            m_totalExposure = calculateTotalExposure (map snd (activePositions t)),
            m_unrealizedPnL = getCurrentUnrealizedPnL (activePositions t),
            m_marginLevel = marginLevel a \<rparr>)"

text \<open>
  The body of \<open>calculateCurrentRiskLevel\<close> after the metrics are read: it consults
  the thresholds, the metrics and the module's \<open>emergencyMode\<close> flag.
\<close>

definition risk_level_of :: "risk_limits \<Rightarrow> bool \<Rightarrow> metrics \<Rightarrow> risk_level" where
  "risk_level_of limits em m =
     (if m_dailyLossPercent m \<ge> th_dailyLoss (lim_critical limits)
         \<or> m_drawdownPercent m \<ge> th_drawdown (lim_critical limits)
         \<or> em
      then Critical
      else if m_dailyLossPercent m \<ge> th_dailyLoss (lim_high limits)
         \<or> m_drawdownPercent m \<ge> th_drawdown (lim_high limits)
         \<or> real (m_activePositions m) \<ge> th_positions (lim_high limits)
      then High
      else if m_dailyLossPercent m \<ge> th_dailyLoss (lim_medium limits)
         \<or> m_drawdownPercent m \<ge> th_drawdown (lim_medium limits)
         \<or> real (m_activePositions m) \<ge> th_positions (lim_medium limits)
      then Medium
      else Low)"

definition calculateCurrentRiskLevel :: "risk_manager \<Rightarrow> trader \<Rightarrow> risk_level" where
  "calculateCurrentRiskLevel rm t =
     risk_level_of (riskLimits rm) (emergencyMode rm) (getCurrentRiskMetrics rm t)"

definition recordRiskEvent :: "risk_manager \<Rightarrow> risk_event \<Rightarrow> risk_manager" where
  "recordRiskEvent rm ev =
     (let evs = riskEvents rm @ [ev]
      in rm \<lparr> riskEvents :=
                 (if length evs > 1000 then drop (length evs - 1000) evs else evs) \<rparr>)"

definition triggerRiskEvent :: "risk_manager \<Rightarrow> string \<Rightarrow> risk_manager" where
  "triggerRiskEvent rm eventType = rm \<lparr> dispatched := dispatched rm @ [eventType] \<rparr>"

definition checkRiskLevels :: "risk_manager \<Rightarrow> trader \<Rightarrow> risk_manager" where
  "checkRiskLevels rm t =
     (let currentLevel = calculateCurrentRiskLevel rm t
      in if currentLevel \<noteq> rp_level (riskProfile rm)
         then
           let oldLevel = rp_level (riskProfile rm);
               rm1 = rm \<lparr> riskProfile := (riskProfile rm) \<lparr> rp_level := currentLevel \<rparr> \<rparr>;
               rm2 = recordRiskEvent rm1 (RiskLevelChange oldLevel currentLevel)
           in triggerRiskEvent rm2 ''risk_level_changed''
         else rm)"

text \<open>
  The loop of \<open>executeEmergencyActions\<close> over the snapshot of open positions:
  each \<open>closePosition(id, 'emergency_close')\<close> is awaited in turn, \<open>prices\<close> is what
  \<open>getCurrentPrice\<close> returns for a symbol. A close that throws leaves the loop
  through the surrounding \<open>catch\<close>, with the state that close has left. The result
  lists the positions the closes returned, tells whether the loop ran to its end, and
  gives the trader state.
\<close>

fun emergency_close_loop ::
  "(string \<Rightarrow> real option) \<Rightarrow> trader \<Rightarrow> position list \<Rightarrow> position list \<times> bool \<times> trader"
where
  "emergency_close_loop prices t [] = ([], True, t)"
| "emergency_close_loop prices t (p # ps) =
     (case closePosition t (pos_id p) ''emergency_close'' None (prices (symbol p)) of
        (Inl e, t') \<Rightarrow> ([], False, t')
      | (Inr c, t') \<Rightarrow>
          (case emergency_close_loop prices t' ps of
             (cs, ok, t'') \<Rightarrow> (c # cs, ok, t'')))"

text \<open>
  The awaited closes are run to completion at the point of the call; the steps after
  the loop (\<open>maxPositions = 0\<close>) are reached only when no close throws.
\<close>

definition executeEmergencyActions ::
  "(string \<Rightarrow> real option) \<Rightarrow> risk_manager \<times> trader \<Rightarrow> risk_manager \<times> trader"
where
  "executeEmergencyActions prices s =
     (case s of (rm, t) \<Rightarrow>
        (case emergency_close_loop prices t (map snd (activePositions t)) of
           (cs, ok, t') \<Rightarrow>
             if ok
             then (rm \<lparr> riskProfile := (riskProfile rm) \<lparr> rp_maxPositions := 0 \<rparr> \<rparr>, t')
             else (rm, t')))"

definition activateEmergencyMode ::
  "(string \<Rightarrow> real option) \<Rightarrow> risk_manager \<times> trader \<Rightarrow> trigger \<Rightarrow> risk_manager \<times> trader"
where
  "activateEmergencyMode prices s trig =
     (case s of (rm, t) \<Rightarrow>
        let rm1 = rm \<lparr> emergencyMode := True,
                       riskProfile := (riskProfile rm) \<lparr> rp_level := Critical \<rparr> \<rparr>
        in (case executeEmergencyActions prices (rm1, t) of
              (rm2, t') \<Rightarrow> (triggerRiskEvent rm2 ''emergency_mode_activated'', t')))"

definition handleEmergencyTrigger ::
  "(string \<Rightarrow> real option) \<Rightarrow> risk_manager \<times> trader \<Rightarrow> trigger \<Rightarrow> risk_manager \<times> trader"
where
  "handleEmergencyTrigger prices s trig =
     (case (if \<not> emergencyMode (fst s) then activateEmergencyMode prices s trig else s) of
        (rm1, t1) \<Rightarrow>
          (triggerRiskEvent (recordRiskEvent rm1 (EmergencyTrigger trig))
             ''emergency_triggered'', t1))"

text \<open>The list of triggers that \<open>checkEmergencyTriggers\<close> builds before handling them.\<close>

definition emergency_triggers :: "risk_manager \<Rightarrow> trader \<Rightarrow> trigger list" where
  "emergency_triggers rm t =
     (case mockAccount t of
        None \<Rightarrow> []
      | Some a \<Rightarrow>
          let m = getCurrentRiskMetrics rm t;
              rp = riskProfile rm;
              ds = dailyStats rm;
              totalLossPercent =
                (ds_startingBalance ds - balance a) / ds_startingBalance ds * 100
          in (if m_dailyLossPercent m \<ge> rp_maxDailyLoss rp
              then [\<lparr> trig_type = ''daily_loss_limit'', trig_value = m_dailyLossPercent m,
                      trig_limit = rp_maxDailyLoss rp \<rparr>] else [])
           @ (if m_drawdownPercent m \<ge> rp_maxDrawdown rp
              then [\<lparr> trig_type = ''drawdown_limit'', trig_value = m_drawdownPercent m,
                      trig_limit = rp_maxDrawdown rp \<rparr>] else [])
           @ (if m_marginLevel m > 0 \<and> m_marginLevel m < 200
              then [\<lparr> trig_type = ''margin_call'', trig_value = m_marginLevel m,
                      trig_limit = 200 \<rparr>] else [])
           @ (if totalLossPercent \<ge> rp_panicModeThreshold rp
              then [\<lparr> trig_type = ''panic_mode'', trig_value = totalLossPercent,
                      trig_limit = rp_panicModeThreshold rp \<rparr>] else []))"

definition checkEmergencyTriggers ::
  "(string \<Rightarrow> real option) \<Rightarrow> risk_manager \<times> trader \<Rightarrow> risk_manager \<times> trader"
where
  "checkEmergencyTriggers prices s =
     foldl (handleEmergencyTrigger prices) s (emergency_triggers (fst s) (snd s))"

text \<open>
  The first three steps of one risk-check cycle (\<open>startRiskMonitoring\<close>):
  metrics, level, emergency triggers.
\<close>

definition risk_check_cycle ::
  "(string \<Rightarrow> real option) \<Rightarrow> risk_manager \<times> trader \<Rightarrow> risk_manager \<times> trader"
where
  "risk_check_cycle prices s =
     (case s of (rm, t) \<Rightarrow>
        let rm1 = updateRiskMetrics rm t;
            rm2 = checkRiskLevels rm1 t
        in checkEmergencyTriggers prices (rm2, t))"

text \<open>The daily-loss trigger of one cycle: is it among the triggers after the metrics update?\<close>

definition daily_loss_limit_fires :: "risk_manager \<Rightarrow> trader \<Rightarrow> bool" where
  "daily_loss_limit_fires rm t =
     (''daily_loss_limit'' \<in> set (map trig_type
         (emergency_triggers (checkRiskLevels (updateRiskMetrics rm t) t) t)))"

text \<open>The percentage decline of the balance from the day's starting balance.\<close>

definition daily_decline_percent :: "risk_manager \<Rightarrow> trader \<Rightarrow> real" where
  "daily_decline_percent rm t =
     (case mockAccount t of
        None \<Rightarrow> 0
      | Some a \<Rightarrow>
          (ds_startingBalance (dailyStats rm) - balance a)
            / ds_startingBalance (dailyStats rm) * 100)"

definition trader_wf :: "trader \<Rightarrow> bool" where
  "trader_wf t =
     (mockAccount t \<noteq> None
      \<and> distinct (map fst (activePositions t))
      \<and> list_all (\<lambda>e. pos_id (snd e) = fst e \<and> status (snd e) = Open) (activePositions t))"

definition activations :: "risk_manager \<Rightarrow> nat" where
  "activations rm = length (filter (\<lambda>e. e = ''emergency_mode_activated'') (dispatched rm))"

subsection \<open>Concrete risk scenarios and vocabulary\<close>

definition gain_trader :: trader where
  "gain_trader =
     \<lparr> mockAccount = Some ((initializeMockAccount default_config)
         \<lparr> balance := 11100, equity := 11100, freeMargin := 11100, maxBalance := 11100 \<rparr>),
       activePositions = [],
       tradeHistory = [] \<rparr>"

definition loss_trader :: trader where
  "loss_trader =
     \<lparr> mockAccount = Some ((initializeMockAccount default_config)
         \<lparr> balance := 8900, equity := 8900, freeMargin := 8900, maxDrawdown := 11 \<rparr>),
       activePositions = [],
       tradeHistory = [] \<rparr>"

definition day_start_risk_manager :: risk_manager where
  "day_start_risk_manager = init_risk_manager 5 20 10 (init_trader default_config)"



definition daily_loss_trigger :: trigger where
  "daily_loss_trigger = \<lparr> trig_type = ''daily_loss_limit'', trig_value = 11, trig_limit = 10 \<rparr>"

definition drawdown_trigger :: trigger where
  "drawdown_trigger = \<lparr> trig_type = ''drawdown_limit'', trig_value = 16, trig_limit = 15 \<rparr>"

text \<open>A second position on the scenario account: a short of one ETHUSDT at 3000 with
  leverage 10, opened by \<open>openMarketOrder\<close>.\<close>

definition second_env :: open_env where
  "second_env = \<lparr> env_price = Some 3000, env_atr = None, env_atrMultiplier = 3 / 2,
     env_newId = ''pos_2'' \<rparr>"

definition second_position :: position where
  "second_position =
     \<lparr> pos_id = ''pos_2'', symbol = ''ETHUSDT'', pos_side = Short, status = Open,
       size = 1, leverage = 10, entryPrice = 2997, currentPrice = 2997,
       notionalValue = 3000, marginUsed = 300, stopLoss = 152847 / 50, takeProfit = None,
       unrealizedPnL = 0, realizedPnL = 0, fees = 6 / 5, totalFees = 6 / 5,
       exitPrice = None, closeReason = None, ts_enabled = False,
       ts_triggerPrice = None, ts_highestProfit = 0 \<rparr>"

definition two_position_trader :: trader where
  "two_position_trader =
     snd (apply_op scenario_trader (OpOpen ''ETHUSDT'' Short 1 (Some 10) second_env))"

definition emergency_closed :: "position \<Rightarrow> bool" where
  "emergency_closed c = (closeReason c = Some ''emergency_close'' \<and> status c = Closed)"

section \<open>Timeframe validator (timeframeValidator.js)\<close>

datatype validation_state = Pending | Validating | Confirmed | Rejected | Expired

datatype timeframe = TF4h | TF1h | TF15m | TF5m | TF1m | TFother

subsection \<open>Indicator readings\<close>

text \<open>
  What the indicator library hands over for one timeframe; an absent indicator is
  \<open>None\<close>. The band indicator's reading is its \<open>overflow\<close> object.
\<close>

datatype band_direction = Upper | Lower | NoOverflow

datatype rsi_signal = Oversold | Overbought | RsiNeutral

datatype reversal_direction = Bullish | Bearish | NoReversal

record nadaraya_reading =
  nw_direction :: band_direction
  nw_percentage :: real

record rsi_reading =
  rsi_sig :: rsi_signal
  rsi_value :: real
  rsi_hasRecent :: bool

record ma_reading =
  ma_isValid :: bool
  ma_direction :: reversal_direction
  ma_confidence :: real

record indicators =
  ind_nadaraya :: "nadaraya_reading option"
  ind_rsi :: "rsi_reading option"
  ind_ma :: "ma_reading option"

text \<open>\<open>Math.round\<close>: the nearest integer, halves upwards.\<close>

definition js_round :: "real \<Rightarrow> real" where
  "js_round x = of_int \<lfloor>x + 1 / 2\<rfloor>"

text \<open>
  \<open>checkTimeframeSignal\<close> and \<open>checkTimeframeThresholds\<close>; \<open>thresholds\<close> is the
  configuration table \<open>STRATEGY.nadaraya.thresholds\<close>. The results keep the fields
  that \<open>validateTimeframe\<close> reads.
\<close>

record signal_check =
  sc_isValid :: bool
  sc_confidence :: real

record threshold_check =
  tc_isValid :: bool
  tc_passedThresholds :: nat
  tc_totalThresholds :: nat

definition checkTimeframeSignal ::
  "(timeframe \<Rightarrow> real option) \<Rightarrow> indicators \<Rightarrow> timeframe \<Rightarrow> side \<Rightarrow> signal_check"
where
  "checkTimeframeSignal thresholds ind tf targetSignal =
     (let threshold = or_default (thresholds tf) 1;
          (s1, m1) =
            (case ind_nadaraya ind of
               None \<Rightarrow> (0, 0)
             | Some nw \<Rightarrow>
                 ((if nw_percentage nw \<ge> threshold
                      \<and> (if nw_direction nw = Upper then Short else Long) = targetSignal
                   then 3 else 0), 3));
          (s2, m2) =
            (case ind_rsi ind of
               None \<Rightarrow> (s1, m1)
             | Some r \<Rightarrow>
                 if rsi_sig r \<noteq> RsiNeutral
                 then ((if (if rsi_sig r = Oversold then Long else Short) = targetSignal
                        then s1 + (if rsi_hasRecent r then 2 else 1) else s1), m1 + 2)
                 else (s1, m1));
          (signalScore, maxScore) =
            (case ind_ma ind of
               None \<Rightarrow> (s2, m2)
             | Some ma \<Rightarrow>
                 if ma_isValid ma
                 then ((if (if ma_direction ma = Bullish then Long else Short) = targetSignal
                        then s2 + js_round (ma_confidence ma * 2) else s2), m2 + 2)
                 else (s2, m2))
      in if maxScore > (0::real)
         then \<lparr> sc_isValid = (signalScore / maxScore \<ge> 1 / 2),
                sc_confidence = signalScore / maxScore \<rparr>
         else \<lparr> sc_isValid = False, sc_confidence = 0 \<rparr>)"

definition checkTimeframeThresholds ::
  "(timeframe \<Rightarrow> real option) \<Rightarrow> indicators \<Rightarrow> timeframe \<Rightarrow> threshold_check"
where
  "checkTimeframeThresholds thresholds ind tf =
     (let threshold = or_default (thresholds tf) 1;
          total = (case ind_nadaraya ind of None \<Rightarrow> 0 | Some nw \<Rightarrow> 1);
          passed = (case ind_nadaraya ind of
                      None \<Rightarrow> 0
                    | Some nw \<Rightarrow> if nw_percentage nw \<ge> threshold then 1 else 0)
      in \<lparr> tc_isValid = (total > 0 \<and> real passed / real total \<ge> 8 / 10),
           tc_passedThresholds = passed,
           tc_totalThresholds = total \<rparr>)"

definition timeframe_confirms ::
  "(timeframe \<Rightarrow> real option) \<Rightarrow> indicators \<Rightarrow> timeframe \<Rightarrow> side \<Rightarrow> bool"
where
  "timeframe_confirms thresholds ind tf targetSignal =
     (sc_isValid (checkTimeframeSignal thresholds ind tf targetSignal)
      \<and> tc_isValid (checkTimeframeThresholds thresholds ind tf))"

subsection \<open>Sessions, the cache and the clock\<close>

record waiting_period =
  wp_startTime :: nat
  wp_endTime :: nat
  wp_checks :: nat
  wp_lastCheck :: "nat option"

record validation =
  v_symbol :: string
  v_state :: validation_state
  v_startTime :: nat
  v_targetSignal :: side
  v_timeframeResults :: "(timeframe \<times> bool) list"
  v_waitingPeriods :: "(timeframe \<times> waiting_period) list"
  v_endTime :: "nat option"
  v_finalReason :: "string option"
  v_error :: "string option"

record history_entry =
  h_id :: string
  h_state :: validation_state
  h_reason :: string
  h_timestamp :: nat

datatype verror = ValidationNotFound | DataUnavailable

text \<open>
  The session objects live in a store keyed by their identifier; \<open>vs_cached\<close> lists
  the identifiers that \<open>validationCache\<close> holds. A function that obtained a session
  from the cache keeps writing to the object after the cache dropped it, as the
  source does through its reference. Times are milliseconds. \<open>vs_polls\<close> records
  each evaluation of a timeframe with the time it started and its outcome (an error,
  or \<open>isValid\<close>); the source has no such field, it is the trace the properties
  speak about.
\<close>

record vstate =
  vs_objects :: "(string \<times> validation) list"
  vs_cached :: "string list"
  vs_clock :: nat
  vs_history :: "history_entry list"
  vs_polls :: "(timeframe \<times> nat \<times> (verror + bool)) list"
  vs_dispatched :: "string list"

definition get_cached :: "vstate \<Rightarrow> string \<Rightarrow> validation option" where
  "get_cached vs validationId =
     (if validationId \<in> set (vs_cached vs) then map_of (vs_objects vs) validationId else None)"

definition upd_obj :: "vstate \<Rightarrow> string \<Rightarrow> (validation \<Rightarrow> validation) \<Rightarrow> vstate" where
  "upd_obj vs validationId f =
     vs \<lparr> vs_objects :=
            map (\<lambda>e. if fst e = validationId then (fst e, f (snd e)) else e) (vs_objects vs) \<rparr>"

definition state_of :: "vstate \<Rightarrow> string \<Rightarrow> validation_state option" where
  "state_of vs validationId = map_option v_state (map_of (vs_objects vs) validationId)"

definition cancelValidation :: "vstate \<Rightarrow> string \<Rightarrow> bool \<times> vstate" where
  "cancelValidation vs validationId =
     (case get_cached vs validationId of
        Some v \<Rightarrow>
          (True, upd_obj vs validationId
                   (\<lambda>v. v \<lparr> v_state := Rejected, v_finalReason := Some ''Manuel iptal'' \<rparr>))
      | None \<Rightarrow> (False, vs))"

definition cleanupValidationCache :: "vstate \<Rightarrow> vstate" where
  "cleanupValidationCache vs =
     vs \<lparr> vs_cached :=
            filter (\<lambda>k. case map_of (vs_objects vs) k of
                           None \<Rightarrow> False
                         | Some v \<Rightarrow> \<not> (vs_clock vs - v_startTime v > 60 * 60 * 1000))
              (vs_cached vs),
          vs_history :=
            (if length (vs_history vs) > 1000
             then drop (length (vs_history vs) - 1000) (vs_history vs)
             else vs_history vs) \<rparr>"

text \<open>
  The environment of a validation run: the indicator readings a timeframe evaluation
  started at a given time obtains (\<open>None\<close>: no data, the evaluation throws), how
  long that evaluation takes, the configured thresholds, and what other tasks do
  while the run is suspended in an \<open>await\<close>: calls of \<open>cancelValidation\<close> and runs
  of the cache cleanup, each with its time.
\<close>

datatype ext_event = CancelValidation string | CleanupCache

record venv =
  ve_data :: "timeframe \<Rightarrow> nat \<Rightarrow> indicators option"
  ve_latency :: "timeframe \<Rightarrow> nat \<Rightarrow> nat"
  ve_thresholds :: "timeframe \<Rightarrow> real option"
  ve_external :: "(nat \<times> ext_event) list"

definition apply_external :: "vstate \<Rightarrow> nat \<times> ext_event \<Rightarrow> vstate" where
  "apply_external vs te =
     (case snd te of
        CancelValidation validationId \<Rightarrow>
          snd (cancelValidation (vs \<lparr> vs_clock := fst te \<rparr>) validationId)
      | CleanupCache \<Rightarrow> cleanupValidationCache (vs \<lparr> vs_clock := fst te \<rparr>))"

text \<open>An \<open>await\<close> of duration \<open>dt\<close>: the external events that fall due are applied in order.\<close>

definition advance :: "venv \<Rightarrow> vstate \<Rightarrow> nat \<Rightarrow> vstate" where
  "advance env vs dt =
     (foldl apply_external vs
        (filter (\<lambda>te. vs_clock vs < fst te \<and> fst te \<le> vs_clock vs + dt) (ve_external env)))
       \<lparr> vs_clock := vs_clock vs + dt \<rparr>"

definition getTimeframeCheckInterval :: "timeframe \<Rightarrow> nat" where
  "getTimeframeCheckInterval tf =
     (case tf of
        TF4h \<Rightarrow> 15 * 60 * 1000
      | TF1h \<Rightarrow> 5 * 60 * 1000
      | TF15m \<Rightarrow> 1 * 60 * 1000
      | TF5m \<Rightarrow> 30 * 1000
      | TF1m \<Rightarrow> 10 * 1000
      | TFother \<Rightarrow> 60 * 1000)"

definition validateTimeframe ::
  "venv \<Rightarrow> vstate \<Rightarrow> string \<Rightarrow> timeframe \<Rightarrow> (verror + bool) \<times> vstate"
where
  "validateTimeframe env vs validationId tf =
     (case get_cached vs validationId of
        None \<Rightarrow> (Inl ValidationNotFound, vs)
      | Some v \<Rightarrow>
          let t0 = vs_clock vs;
              r = (case ve_data env tf t0 of
                     None \<Rightarrow> Inl DataUnavailable
                   | Some ind \<Rightarrow>
                       Inr (timeframe_confirms (ve_thresholds env) ind tf (v_targetSignal v)));
              vs1 = advance env (vs \<lparr> vs_polls := vs_polls vs @ [(tf, t0, r)] \<rparr>)
                      (ve_latency env tf t0)
          in (case r of
                Inl e \<Rightarrow> (r, vs1)
              | Inr isValid \<Rightarrow>
                  (r, upd_obj vs1 validationId
                        (\<lambda>v. v \<lparr> v_timeframeResults :=
                                   map_set (v_timeframeResults v) tf isValid \<rparr>))))"

definition cancelled_or_gone :: "vstate \<Rightarrow> string \<Rightarrow> bool" where
  "cancelled_or_gone vs validationId =
     (case get_cached vs validationId of
        None \<Rightarrow> True
      | Some v \<Rightarrow> v_state v = Rejected)"

definition count_check :: "timeframe \<Rightarrow> nat \<Rightarrow> validation \<Rightarrow> validation" where
  "count_check tf now v =
     v \<lparr> v_waitingPeriods :=
           map (\<lambda>e. if fst e = tf
                     then (fst e, (snd e) \<lparr> wp_checks := wp_checks (snd e) + 1,
                                           wp_lastCheck := Some now \<rparr>)
                     else e) (v_waitingPeriods v) \<rparr>"

definition retry_delay :: "timeframe \<Rightarrow> verror + bool \<Rightarrow> nat" where
  "retry_delay tf r = (case r of Inr b \<Rightarrow> getTimeframeCheckInterval tf | Inl e \<Rightarrow> 30000)"

subsection \<open>The monitoring loop and the sequential protocol\<close>

lemma clock_advance: "vs_clock (advance env vs dt) = vs_clock vs + dt"
  by (simp add: advance_def)

lemma clock_upd_obj: "vs_clock (upd_obj vs validationId f) = vs_clock vs"
  by (simp add: upd_obj_def)

lemma clock_validateTimeframe:
  "vs_clock vs \<le> vs_clock (snd (validateTimeframe env vs validationId tf))"
  by (simp add: validateTimeframe_def Let_def clock_advance clock_upd_obj
      split: option.split sum.split)

lemma retry_delay_pos: "0 < retry_delay tf r"
  by (cases r; cases tf) (simp_all add: retry_delay_def getTimeframeCheckInterval_def)

text \<open>
  The \<open>while (Date.now() < endTime)\<close> loop of \<open>monitorTimeframeWindow\<close>: count the
  check, evaluate the timeframe, return on a confirmation; otherwise wait (the poll
  interval after a result, 30 seconds after a thrown error), then stop if the session
  was cancelled or dropped from the cache. The result is \<open>isValid\<close>.
\<close>

function monitor_loop :: "venv \<Rightarrow> string \<Rightarrow> timeframe \<Rightarrow> nat \<Rightarrow> vstate \<Rightarrow> bool \<times> vstate" where
  "monitor_loop env validationId tf endTime vs =
     (if vs_clock vs < endTime
      then
        (case validateTimeframe env
                (upd_obj vs validationId (count_check tf (vs_clock vs))) validationId tf of
           (r, vs2) \<Rightarrow>
             if r = Inr True then (True, vs2)
             else
               let vs3 = advance env vs2 (retry_delay tf r)
               in if cancelled_or_gone vs3 validationId then (False, vs3)
                  else monitor_loop env validationId tf endTime vs3)
      else (False, vs))"
  by pat_completeness auto
termination
proof (relation "measure (\<lambda>(env, validationId, tf, endTime, vs). endTime - vs_clock vs)")
  show "wf (measure (\<lambda>(env, validationId, tf, endTime, vs). endTime - vs_clock vs))"
    by simp
next
  fix env :: venv and validationId :: string and tf :: timeframe and endTime :: nat
    and vs :: vstate and r vs2 vs3
  assume lt: "vs_clock vs < endTime"
    and p: "(r, vs2) = validateTimeframe env
                  (upd_obj vs validationId (count_check tf (vs_clock vs))) validationId tf"
    and v3: "vs3 = advance env vs2 (retry_delay tf r)"
  from p have "vs2 = snd (validateTimeframe env
                  (upd_obj vs validationId (count_check tf (vs_clock vs))) validationId tf)"
    by (metis snd_conv)
  then have "vs_clock vs \<le> vs_clock vs2"
    using clock_validateTimeframe
      [of "upd_obj vs validationId (count_check tf (vs_clock vs))" env validationId tf]
    by (simp add: clock_upd_obj)
  with v3 retry_delay_pos [of tf r] have "vs_clock vs < vs_clock vs3"
    by (simp add: clock_advance)
  with lt show "((env, validationId, tf, endTime, vs3), env, validationId, tf, endTime, vs)
      \<in> measure (\<lambda>(env, validationId, tf, endTime, vs). endTime - vs_clock vs)"
    by simp
qed

declare monitor_loop.simps [simp del]

definition monitorTimeframeWindow ::
  "venv \<Rightarrow> vstate \<Rightarrow> string \<Rightarrow> timeframe \<Rightarrow> nat \<Rightarrow> (verror + bool) \<times> vstate"
where
  "monitorTimeframeWindow env vs validationId tf windowDuration =
     (case get_cached vs validationId of
        None \<Rightarrow> (Inl ValidationNotFound, vs)
      | Some v \<Rightarrow>
          let startTime = vs_clock vs;
              endTime = startTime + windowDuration;
              vs1 = upd_obj vs validationId
                      (\<lambda>v. v \<lparr> v_waitingPeriods :=
                                 map_set (v_waitingPeriods v) tf
                                   \<lparr> wp_startTime = startTime, wp_endTime = endTime,
                                     wp_checks = 0, wp_lastCheck = None \<rparr> \<rparr>)
          in (case monitor_loop env validationId tf endTime vs1 of
                (isValid, vs2) \<Rightarrow> (Inr isValid, vs2)))"

definition finalizeValidation ::
  "vstate \<Rightarrow> string \<Rightarrow> bool \<Rightarrow> string \<Rightarrow> (verror + bool) \<times> vstate"
where
  "finalizeValidation vs validationId isSuccessful reason =
     (case get_cached vs validationId of
        None \<Rightarrow> (Inl ValidationNotFound, vs)
      | Some v \<Rightarrow>
          let st = (if isSuccessful then Confirmed else Rejected);
              vs1 = upd_obj vs validationId
                      (\<lambda>v. v \<lparr> v_state := st, v_endTime := Some (vs_clock vs),
                               v_finalReason := Some reason \<rparr>)
          in (Inr isSuccessful,
              vs1 \<lparr> vs_history :=
                       vs_history vs1 @
                         [\<lparr> h_id = validationId, h_state = st, h_reason = reason,
                            h_timestamp = vs_clock vs \<rparr>],
                     vs_dispatched := vs_dispatched vs1 @ [''validation_completed''] \<rparr>))"

text \<open>The reason texts of the source are Turkish; they are abbreviated here.\<close>

definition executeSequentialValidation ::
  "venv \<Rightarrow> vstate \<Rightarrow> string \<Rightarrow> (verror + bool) \<times> vstate"
where
  "executeSequentialValidation env vs validationId =
     (case get_cached vs validationId of
        None \<Rightarrow> (Inl ValidationNotFound, vs)
      | Some v \<Rightarrow>
          (case validateTimeframe env
                  (upd_obj vs validationId (\<lambda>v. v \<lparr> v_state := Validating \<rparr>))
                  validationId TF4h of
             (Inl e, vs1) \<Rightarrow> (Inl e, vs1)
           | (Inr False, vs1) \<Rightarrow> finalizeValidation vs1 validationId False ''4H failed''
           | (Inr True, vs1) \<Rightarrow>
               (case monitorTimeframeWindow env vs1 validationId TF1h (4 * 60 * 60 * 1000) of
                  (Inl e, vs2) \<Rightarrow> (Inl e, vs2)
                | (Inr False, vs2) \<Rightarrow>
                    finalizeValidation vs2 validationId False ''1H window: no signal''
                | (Inr True, vs2) \<Rightarrow>
                    (case monitorTimeframeWindow env vs2 validationId TF15m (60 * 60 * 1000) of
                       (Inl e, vs3) \<Rightarrow> (Inl e, vs3)
                     | (Inr False, vs3) \<Rightarrow>
                         finalizeValidation vs3 validationId False ''15M window: no signal''
                     | (Inr True, vs3) \<Rightarrow>
                         finalizeValidation vs3 validationId True
                           ''Sequential validation successful''))))"

text \<open>
  \<open>startSequentialValidation\<close>; \<open>validationId\<close> is the identifier drawn by
  \<open>generateValidationId\<close>. The \<open>catch\<close> marks the session object rejected and
  rethrows.
\<close>

definition startSequentialValidation ::
  "venv \<Rightarrow> vstate \<Rightarrow> string \<Rightarrow> string \<Rightarrow> side \<Rightarrow> (verror + bool) \<times> vstate"
where
  "startSequentialValidation env vs validationId smb initialSignal =
     (let v = \<lparr> v_symbol = smb, v_state = Pending, v_startTime = vs_clock vs,
                v_targetSignal = initialSignal, v_timeframeResults = [],
                v_waitingPeriods = [], v_endTime = None, v_finalReason = None,
                v_error = None \<rparr>;
          vs1 = vs \<lparr> vs_objects := map_set (vs_objects vs) validationId v,
                     vs_cached := (if validationId \<in> set (vs_cached vs) then vs_cached vs
                                   else vs_cached vs @ [validationId]) \<rparr>
      in (case executeSequentialValidation env vs1 validationId of
            (Inl e, vs2) \<Rightarrow>
              (Inl e, upd_obj vs2 validationId
                        (\<lambda>v. v \<lparr> v_state := Rejected, v_error := Some ''error'' \<rparr>))
          | (Inr ok, vs2) \<Rightarrow> (Inr ok, vs2)))"

subsection \<open>Traces of a sequential validation\<close>

text \<open>A validator with an empty cache and history, at time 0; the reading of an oversold
  timeframe with a lower-band overflow of 2.5 percent, and a flat reading; a market in which
  every timeframe is oversold, and one in which only the 4h timeframe is flat. The threshold
  is 1 percent everywhere.\<close>

definition empty_vstate :: vstate where
  "empty_vstate = \<lparr> vs_objects = [], vs_cached = [], vs_clock = 0, vs_history = [],
     vs_polls = [], vs_dispatched = [] \<rparr>"

definition oversold_reading :: indicators where
  "oversold_reading =
     \<lparr> ind_nadaraya = Some \<lparr> nw_direction = Lower, nw_percentage = 5 / 2 \<rparr>,
       ind_rsi = Some \<lparr> rsi_sig = Oversold, rsi_value = 18, rsi_hasRecent = True \<rparr>,
       ind_ma = None \<rparr>"

definition flat_reading :: indicators where
  "flat_reading =
     \<lparr> ind_nadaraya = Some \<lparr> nw_direction = NoOverflow, nw_percentage = 0 \<rparr>,
       ind_rsi = Some \<lparr> rsi_sig = RsiNeutral, rsi_value = 50, rsi_hasRecent = False \<rparr>,
       ind_ma = None \<rparr>"

definition confirming_env :: venv where
  "confirming_env =
     \<lparr> ve_data = (\<lambda>tf t. Some oversold_reading), ve_latency = (\<lambda>tf t. 0),
       ve_thresholds = (\<lambda>tf. Some 1), ve_external = [] \<rparr>"



text \<open>A window is confirmed by its last evaluation.\<close>

definition confirmed_by :: "(timeframe \<times> nat \<times> (verror + bool)) list \<Rightarrow> bool" where
  "confirmed_by ps = (ps \<noteq> [] \<and> snd (snd (last ps)) = Inr True)"


text \<open>A session object exists once it has been created, whether or not the cache still holds it.\<close>

definition obj_exists :: "vstate \<Rightarrow> string \<Rightarrow> bool" where
  "obj_exists vs validationId = (map_of (vs_objects vs) validationId \<noteq> None)"

text \<open>The two halves of \<open>startSequentialValidation\<close>: the creation of the session, and the
  \<open>catch\<close> block that marks it rejected before rethrowing.\<close>

definition rethrow :: "string \<Rightarrow> (verror + bool) \<times> vstate \<Rightarrow> (verror + bool) \<times> vstate" where
  "rethrow k x =
     (case x of
        (Inl e, s) \<Rightarrow>
          (Inl e, upd_obj s k (\<lambda>v. v \<lparr> v_state := Rejected, v_error := Some ''error'' \<rparr>))
      | (Inr ok, s) \<Rightarrow> (Inr ok, s))"






section \<open>Signal generator (SignalGenerator module)\<close>

text \<open>
  \<open>analyzeSymbol\<close> asks the indicator library for a multi-timeframe analysis and
  combines the readings. Each \<open>analyzeMultiTimeframe\<close> of the library loops over 4h, 1h
  and 15m, skips a timeframe whose candle list is missing or too short, and wraps the
  calculation of a timeframe in \<open>try\<close>/\<open>catch\<close>: a timeframe then has a reading, or none
  (\<open>undefined\<close> when skipped, \<open>null\<close> when the calculation threw). The numerical
  calculations themselves are parameters of the model.
\<close>

datatype signal_type = SigLong | SigShort | SigNeutral

datatype signal_strength = Weak | Moderate | Strong | VeryStrong

datatype signal_error = TypeError

type_synonym candles = "real list"

record indicator_lib =
  lib_nadaraya :: "candles \<Rightarrow> nadaraya_reading option"
  lib_rsi :: "candles \<Rightarrow> rsi_reading option"
  lib_ma :: "candles \<Rightarrow> ma_reading option"

definition analysed_timeframes :: "timeframe list" where
  "analysed_timeframes = [TF4h, TF1h, TF15m]"

definition NadarayaWatson_analyzeMultiTimeframe ::
  "indicator_lib \<Rightarrow> (timeframe \<Rightarrow> candles option) \<Rightarrow> timeframe \<Rightarrow> nadaraya_reading option"
where
  "NadarayaWatson_analyzeMultiTimeframe lib multiData tf =
     (if tf \<in> set analysed_timeframes
      then (case multiData tf of
              None \<Rightarrow> None
            | Some cs \<Rightarrow> if length cs > 0 then lib_nadaraya lib cs else None)
      else None)"

text \<open>The default RSI period is 14, the default moving-average periods are 7, 25 and 99.\<close>

definition RSI_analyzeMultiTimeframe ::
  "indicator_lib \<Rightarrow> (timeframe \<Rightarrow> candles option) \<Rightarrow> timeframe \<Rightarrow> rsi_reading option"
where
  "RSI_analyzeMultiTimeframe lib multiData tf =
     (if tf \<in> set analysed_timeframes
      then (case multiData tf of
              None \<Rightarrow> None
            | Some cs \<Rightarrow> if length cs > 14 + 1 then lib_rsi lib cs else None)
      else None)"

definition MovingAverages_analyzeMultiTimeframe ::
  "indicator_lib \<Rightarrow> (timeframe \<Rightarrow> candles option) \<Rightarrow> timeframe \<Rightarrow> ma_reading option"
where
  "MovingAverages_analyzeMultiTimeframe lib multiData tf =
     (if tf \<in> set analysed_timeframes
      then (case multiData tf of
              None \<Rightarrow> None
            | Some cs \<Rightarrow> if length cs > Max {7, 25, 99} then lib_ma lib cs else None)
      else None)"

text \<open>
  \<open>analyzeTimeframe\<close>. The threshold table is read from the configuration only when the
  band indicator has a reading; \<open>thresholds = None\<close> stands for a table configured as
  \<open>null\<close>, on which \<open>thresholds[tf]\<close> throws. The fields \<open>ta_nadaraya\<close>, \<open>ta_rsi\<close>
  and \<open>ta_movingAverages\<close> are the entries of \<open>analysis.signals\<close>.
\<close>

record timeframe_analysis =
  ta_score :: real
  ta_signal :: signal_type
  ta_strength :: signal_strength
  ta_nadaraya :: "signal_type option"
  ta_rsi :: "signal_type option"
  ta_movingAverages :: "signal_type option"

definition analyzeTimeframe ::
  "(timeframe \<Rightarrow> real option) option \<Rightarrow> timeframe \<Rightarrow> indicators
     \<Rightarrow> signal_error + timeframe_analysis"
where
  "analyzeTimeframe thresholds tf ind =
     (case (case ind_nadaraya ind of
              None \<Rightarrow> Inr None
            | Some nw \<Rightarrow>
                (case thresholds of
                   None \<Rightarrow> Inl TypeError
                 | Some th \<Rightarrow>
                     if nw_percentage nw \<ge> or_default (th tf) 1
                     then Inr (Some (if nw_direction nw = Upper then SigShort else SigLong))
                     else Inr None)) of
        Inl e \<Rightarrow> Inl e
      | Inr nadaraya \<Rightarrow>
          (let s1 = (case nadaraya of
                       None \<Rightarrow> 0
                     | Some sg \<Rightarrow> if sg = SigLong then 3 else - 3);
               rsi = (case ind_rsi ind of
                        None \<Rightarrow> None
                      | Some r \<Rightarrow>
                          if rsi_sig r \<noteq> RsiNeutral
                          then Some (if rsi_sig r = Oversold then SigLong else SigShort,
                                     if rsi_hasRecent r then 3 / 2 else 1)
                          else None);
               s2 = (case rsi of
                       None \<Rightarrow> s1
                     | Some (sg, bonus) \<Rightarrow> s1 + (if sg = SigLong then 1 else - 1) * bonus);
               ma = (case ind_ma ind of
                       None \<Rightarrow> None
                     | Some m \<Rightarrow>
                         if ma_isValid m
                         then Some (if ma_direction m = Bullish then SigLong else SigShort,
                                    ma_confidence m)
                         else None);
               score = (case ma of
                          None \<Rightarrow> s2
                        | Some (sg, maStrength) \<Rightarrow>
                            s2 + (if sg = SigLong then 2 else - 2) * maStrength)
           in Inr \<lparr> ta_score = score,
                    ta_signal = (if score > 2 then SigLong
                                 else if score < - 2 then SigShort else SigNeutral),
                    ta_strength = (if \<bar>score\<bar> \<ge> 6 then VeryStrong
                                   else if \<bar>score\<bar> \<ge> 4 then Strong
                                   else if \<bar>score\<bar> \<ge> 2 then Moderate else Weak),
                    ta_nadaraya = nadaraya,
                    ta_rsi = map_option fst rsi,
                    ta_movingAverages = map_option fst ma \<rparr>))"

text \<open>\<open>calculateOverallSignal\<close>, on the analyses of the three timeframes.\<close>

record overall_signal =
  ov_signal :: signal_type
  ov_strength :: signal_strength
  ov_score :: real
  ov_supportingTimeframes :: "timeframe list"

definition weights :: "timeframe \<Rightarrow> real" where
  "weights tf = (case tf of TF4h \<Rightarrow> 3 | TF1h \<Rightarrow> 2 | TF15m \<Rightarrow> 1 | _ \<Rightarrow> 0)"

definition calculateOverallSignal :: "(timeframe \<Rightarrow> timeframe_analysis) \<Rightarrow> overall_signal" where
  "calculateOverallSignal timeframeAnalysis =
     (let supporting = filter (\<lambda>tf. ta_signal (timeframeAnalysis tf) \<noteq> SigNeutral)
                         analysed_timeframes;
          totalScore = sum_list (map (\<lambda>tf. ta_score (timeframeAnalysis tf) * weights tf)
                                   supporting);
          totalWeight = sum_list (map weights supporting);
          activeTimeframes = length supporting
      in if activeTimeframes = 0
         then \<lparr> ov_signal = SigNeutral, ov_strength = Weak, ov_score = 0,
                ov_supportingTimeframes = supporting \<rparr>
         else (let avgScore = totalScore / totalWeight
               in \<lparr> ov_signal = (if avgScore > 1 then SigLong
                                    else if avgScore < - 1 then SigShort else SigNeutral),
                      ov_strength = (if \<bar>avgScore\<bar> \<ge> 4 then VeryStrong
                                      else if \<bar>avgScore\<bar> \<ge> 3 then Strong
                                      else if \<bar>avgScore\<bar> \<ge> 2 then Moderate else Weak),
                      ov_score = avgScore,
                      ov_supportingTimeframes = supporting \<rparr>))"

text \<open>\<open>calculateConfidence\<close>.\<close>

definition strength_score :: "timeframe_analysis \<Rightarrow> real" where
  "strength_score a =
     (if ta_signal a = SigNeutral then 0
      else (case ta_strength a of
              VeryStrong \<Rightarrow> 1 | Strong \<Rightarrow> 8 / 10 | Moderate \<Rightarrow> 6 / 10 | Weak \<Rightarrow> 4 / 10))"

definition calculateConfidence :: "(timeframe \<Rightarrow> timeframe_analysis) \<Rightarrow> real" where
  "calculateConfidence timeframeAnalysis =
     (let signals = filter (\<lambda>s. s \<noteq> SigNeutral)
                      (map (\<lambda>tf. ta_signal (timeframeAnalysis tf)) analysed_timeframes);
          longCount = length (filter (\<lambda>s. s = SigLong) signals);
          shortCount = length (filter (\<lambda>s. s = SigShort) signals);
          (c1, f1) = (if length signals > 0
                      then (real (max longCount shortCount) / real (length signals) * (4 / 10),
                            1)
                      else (0, 0 :: nat));
          activeIndicators =
            sum_list (map (\<lambda>tf. (if ta_nadaraya (timeframeAnalysis tf) \<noteq> None then 1 else 0)
                               + (if ta_rsi (timeframeAnalysis tf) \<noteq> None then 1 else 0)
                               + (if ta_movingAverages (timeframeAnalysis tf) \<noteq> None
                                  then 1 else (0 :: nat)))
                        analysed_timeframes);
          indicatorDiversity = real activeIndicators / real (3 * length analysed_timeframes);
          strengthScores = map (\<lambda>tf. strength_score (timeframeAnalysis tf)) analysed_timeframes;
          avgStrength = sum_list strengthScores / real (length strengthScores);
          confidenceScore = c1 + indicatorDiversity * (3 / 10) + avgStrength * (3 / 10);
          factors = f1 + 2;
          confidence = (if factors > 0 then confidenceScore / real factors else 0)
      in min (max confidence 0) 1)"

text \<open>
  \<open>analyzeSymbol\<close>. A missing or empty symbol and missing market data return \<open>null\<close>
  (\<open>Inr None\<close>); an exception inside the analysis is rethrown by \<open>safeAsync\<close>, which is
  called without an error handler (\<open>Inl\<close>). The second component is \<open>lastAnalysis\<close>.
\<close>

datatype listed_signal = MainSignal signal_type | TimeframeSignal timeframe signal_type

record analysis =
  an_symbol :: string
  an_timeframes :: "timeframe \<Rightarrow> timeframe_analysis"
  an_overall :: overall_signal
  an_signals :: "listed_signal list"
  an_confidence :: real
  an_recommendation :: signal_type

definition generateSignalList ::
  "overall_signal \<Rightarrow> (timeframe \<Rightarrow> timeframe_analysis) \<Rightarrow> listed_signal list"
where
  "generateSignalList overall timeframeAnalysis =
     (if ov_signal overall \<noteq> SigNeutral then [MainSignal (ov_signal overall)] else [])
     @ map (\<lambda>tf. TimeframeSignal tf (ta_signal (timeframeAnalysis tf)))
         (filter (\<lambda>tf. ta_signal (timeframeAnalysis tf) \<noteq> SigNeutral) analysed_timeframes)"

definition analyzeSymbol ::
  "indicator_lib \<Rightarrow> (timeframe \<Rightarrow> real option) option \<Rightarrow> analysis option
     \<Rightarrow> string option \<Rightarrow> (timeframe \<Rightarrow> candles option) option
     \<Rightarrow> (signal_error + analysis option) \<times> analysis option"
where
  "analyzeSymbol lib thresholds lastAnalysis smb multiData =
     (case (smb, multiData) of
        (Some s, Some md) \<Rightarrow>
          if s = [] then (Inr None, lastAnalysis)
          else
            (let ind = (\<lambda>tf. \<lparr> ind_nadaraya = NadarayaWatson_analyzeMultiTimeframe lib md tf,
                                ind_rsi = RSI_analyzeMultiTimeframe lib md tf,
                                ind_ma = MovingAverages_analyzeMultiTimeframe lib md tf \<rparr>)
             in case analyzeTimeframe thresholds TF4h (ind TF4h) of
                  Inl e \<Rightarrow> (Inl e, lastAnalysis)
                | Inr a4 \<Rightarrow>
                   (case analyzeTimeframe thresholds TF1h (ind TF1h) of
                      Inl e \<Rightarrow> (Inl e, lastAnalysis)
                    | Inr a1 \<Rightarrow>
                       (case analyzeTimeframe thresholds TF15m (ind TF15m) of
                          Inl e \<Rightarrow> (Inl e, lastAnalysis)
                        | Inr a15 \<Rightarrow>
                           (let timeframes = (\<lambda>tf. if tf = TF4h then a4
                                                     else if tf = TF1h then a1 else a15);
                                overall = calculateOverallSignal timeframes;
                                a = \<lparr> an_symbol = s,
                                      an_timeframes = timeframes,
                                      an_overall = overall,
                                      an_signals = generateSignalList overall timeframes,
                                      an_confidence = calculateConfidence timeframes,
                                      an_recommendation = ov_signal overall \<rparr>
                            in (Inr (Some a), Some a)))))
      | _ \<Rightarrow> (Inr None, lastAnalysis))"

subsection \<open>Market data for the signal generator\<close>

text \<open>A library whose indicators all fire on any candle list they are given, market data
  without candles, and market data with two hundred candles on every timeframe.\<close>

definition firing_lib :: indicator_lib where
  "firing_lib =
     \<lparr> lib_nadaraya = (\<lambda>cs. Some \<lparr> nw_direction = Lower, nw_percentage = 5 / 2 \<rparr>),
       lib_rsi = (\<lambda>cs. Some \<lparr> rsi_sig = Oversold, rsi_value = 18, rsi_hasRecent = True \<rparr>),
       lib_ma = (\<lambda>cs. None) \<rparr>"

definition no_candles :: "timeframe \<Rightarrow> candles option" where
  "no_candles tf = (if tf = TF4h then None else Some [])"

definition full_candles :: "timeframe \<Rightarrow> candles option" where
  "full_candles tf = Some (replicate 200 100)"

definition insufficient_data :: "(timeframe \<Rightarrow> candles option) \<Rightarrow> bool" where
  "insufficient_data md = list_all (\<lambda>tf. md tf = None \<or> md tf = Some []) analysed_timeframes"

text \<open>What \<open>analyzeTimeframe\<close> returns when no indicator has a reading, and when the band
  indicator and the RSI of the library above both fire.\<close>

definition quiet_analysis :: timeframe_analysis where
  "quiet_analysis =
     \<lparr> ta_score = 0, ta_signal = SigNeutral, ta_strength = Weak, ta_nadaraya = None,
       ta_rsi = None, ta_movingAverages = None \<rparr>"

definition long_analysis :: timeframe_analysis where
  "long_analysis =
     \<lparr> ta_score = 9 / 2, ta_signal = SigLong, ta_strength = Strong,
       ta_nadaraya = Some SigLong, ta_rsi = Some SigLong, ta_movingAverages = None \<rparr>"

section \<open>Properties of the execution engine\<close>

lemma or_default_bool_True: "or_default_bool b True"
  by (simp add: or_default_bool_def split: option.split)

text \<open>
  C10. Whatever the configuration says about \<open>fees.enabled\<close> and
  \<open>slippage.enabled\<close>, the initialised account has both flags set, so on that
  account \<open>applySlippage\<close> always moves the price by the slippage percentage and
  \<open>calculateFee\<close> always charges the taker rate on the notional value.
\<close>

theorem init_forces_fees_and_slippage:
  "fees_enabled (initializeMockAccount config)
   \<and> slippage_enabled (initializeMockAccount config)
   \<and> applySlippage (initializeMockAccount config) price Long =
       price * (1 + slippage_percentage (initializeMockAccount config) / 100)
   \<and> applySlippage (initializeMockAccount config) price Short =
       price * (1 - slippage_percentage (initializeMockAccount config) / 100)
   \<and> calculateFee (initializeMockAccount config) notional Taker =
       notional * (fees_taker (initializeMockAccount config) / 100)"
  by (simp add: initializeMockAccount_def applySlippage_def calculateFee_def
        or_default_bool_True)

lemmas eng_defs = openMarketOrder_def closePosition_def init_trader_def initializeMockAccount_def
  applySlippage_def calculateFee_def calculatePositionPnL_def calculateATRStopLoss_def
  closeAccountUpdate_def Format_duration_def Utils_Math_def
  getCurrentUnrealizedPnL_def or_default_def or_default_bool_def truthy_def opposite_def
  map_delete_def default_config_def scenario_env_def scenario_trader_def scenario_position_def

lemma Format_duration_throws: "Format_duration = Inl NotAFunction"
  by (simp add: Format_duration_def Utils_Math_def)

lemma scenario_open_eq:
  "openMarketOrder (init_trader default_config) ''BTCUSDT'' Long 1 (Some 10) scenario_env
     = Inr (scenario_position, scenario_trader)"
  by (simp add: eng_defs Let_def)

lemma scenario_close_eq:
  "\<exists>t'. closePosition scenario_trader ''pos_1'' ''manual'' (Some 52000) None
           = (Inl NotAFunction, t')
     \<and> exitPrice (last (tradeHistory t')) = Some 51948
     \<and> realizedPnL (last (tradeHistory t')) = 1173263 / 625
     \<and> fees (last (tradeHistory t')) = 20
     \<and> activePositions t' = []"
  by (simp add: eng_defs Let_def)

lemma closeAccountUpdate_fields:
  "balance (closeAccountUpdate a p n f u) = balance a + (n - f)"
  "margin (closeAccountUpdate a p n f u) = margin a - marginUsed p"
  by (simp_all add: closeAccountUpdate_def Let_def)

text \<open>No call of \<open>closePosition\<close> returns: each one throws, before or after the update.\<close>

lemma closePosition_throws: "\<exists>e. fst (closePosition t positionId reason cur lookup) = Inl e"
proof (cases "map_of (activePositions t) positionId")
  case None
  then show ?thesis by (simp add: closePosition_def)
next
  case (Some p)
  show ?thesis
  proof (cases "status p = Open \<and> truthy (if truthy cur then cur else lookup)")
    case False
    with Some show ?thesis by (auto simp: closePosition_def Let_def)
  next
    case True
    with Some show ?thesis
      by (cases "mockAccount t") (simp_all add: closePosition_def Let_def Format_duration_throws)
  qed
qed

text \<open>A close past its guards: the state it leaves and the position it archives.\<close>

lemma closePosition_guarded:
  assumes "map_of (activePositions t) positionId = Some p" and "status p = Open"
    and "truthy (if truthy cur then cur else lookup)" and "mockAccount t = Some a"
  shows "\<exists>t'. closePosition t positionId reason cur lookup = (Inl NotAFunction, t')
           \<and> exitPrice (last (tradeHistory t')) = Some (close_price a p cur lookup)
           \<and> size (last (tradeHistory t')) = size p
           \<and> pos_id (last (tradeHistory t')) = pos_id p
           \<and> status (last (tradeHistory t')) = Closed
           \<and> closeReason (last (tradeHistory t')) = Some reason
           \<and> realizedPnL (last (tradeHistory t'))
                = calculatePositionPnL p (close_price a p cur lookup)
                  - calculateFee a (size p * close_price a p cur lookup) Taker
           \<and> mockAccount t' =
                 Some (closeAccountUpdate a p (realizedPnL (last (tradeHistory t')))
                         (calculateFee a (size p * close_price a p cur lookup) Taker)
                         (getCurrentUnrealizedPnL (activePositions t)))
           \<and> activePositions t' = map_delete (activePositions t) positionId"
  using assms
  by (simp add: closePosition_def Let_def close_price_def Format_duration_throws)

lemma closePosition_performed:
  assumes "closePosition t positionId reason cur lookup = (Inl NotAFunction, t')"
  shows "\<exists>p a. map_of (activePositions t) positionId = Some p
           \<and> status p = Open
           \<and> truthy (if truthy cur then cur else lookup)
           \<and> mockAccount t = Some a"
proof -
  from assms obtain p where p: "map_of (activePositions t) positionId = Some p"
    by (cases "map_of (activePositions t) positionId") (simp_all add: closePosition_def)
  from assms p have st: "status p = Open"
    by (cases "status p = Open") (simp_all add: closePosition_def)
  from assms p st have tr: "truthy (if truthy cur then cur else lookup)"
    by (cases "truthy (if truthy cur then cur else lookup)")
       (simp_all add: closePosition_def Let_def)
  from assms p st tr obtain a where a: "mockAccount t = Some a"
    by (cases "mockAccount t") (simp_all add: closePosition_def Let_def)
  from p st tr a show ?thesis by blast
qed




lemma sum_map_set_fresh:
  fixes f :: "'k \<times> 'v \<Rightarrow> real"
  shows "k \<notin> fst ` set m \<Longrightarrow>
         sum_list (map f (map_set m k v)) = sum_list (map f m) + f (k, v)"
  by (induction m) auto

lemma keys_map_set: "fst ` set (map_set m k v) = insert k (fst ` set m)"
  by (induction m) (force split: if_splits)+

lemma distinct_map_set:
  "distinct (map fst m) \<Longrightarrow> distinct (map fst (map_set m k v))"
  by (induction m) (auto simp: keys_map_set)

lemma sum_map_delete:
  fixes f :: "'k \<times> 'v \<Rightarrow> real"
  shows "distinct (map fst m) \<Longrightarrow> map_of m k = Some v \<Longrightarrow>
         sum_list (map f (map_delete m k)) = sum_list (map f m) - f (k, v)"
proof (induction m)
  case Nil
  then show ?case by simp
next
  case (Cons e m)
  obtain k' v' where e: "e = (k', v')" by (cases e)
  show ?case
  proof (cases "k' = k")
    case True
    with Cons.prems e have "v' = v" and "k \<notin> fst ` set m" by auto
    then have "filter (\<lambda>e. fst e \<noteq> k) m = m"
      by (auto simp: filter_id_conv)
    with True e \<open>v' = v\<close> show ?thesis by (simp add: map_delete_def)
  next
    case False
    with Cons e show ?thesis by (simp add: map_delete_def)
  qed
qed

lemma distinct_map_delete:
  "distinct (map fst m) \<Longrightarrow> distinct (map fst (map_delete m k))"
  by (simp add: map_delete_def distinct_map_filter)

lemma open_step:
  assumes "openMarketOrder t smb sd quantity lev env = Inr (p, t')"
  shows "step_balanced (t, OpOpen smb sd quantity lev env, p, t')"
    and "margin_consistent t \<Longrightarrow> env_newId env \<notin> fst ` set (activePositions t)
         \<Longrightarrow> margin_consistent t'"
  using assms
  by (auto simp: openMarketOrder_def Let_def step_balanced_def account_balance_def op_fee_def
        margin_consistent_def sum_map_set_fresh distinct_map_set
      split: option.splits if_splits)

lemma close_step:
  assumes "closePosition t positionId reason cur lookup = (Inl NotAFunction, t')"
  shows "step_balanced (t, OpClose positionId reason cur lookup, last (tradeHistory t'), t')"
    and "margin_consistent t \<Longrightarrow> margin_consistent t'"
proof -
  from closePosition_performed [OF assms] obtain q a where
    q: "map_of (activePositions t) positionId = Some q" and
    st: "status q = Open" and
    tr: "truthy (if truthy cur then cur else lookup)" and
    a: "mockAccount t = Some a"
    by blast
  let ?p = "last (tradeHistory t')"
  from closePosition_guarded [OF q st tr a, of reason] assms have
    x: "exitPrice ?p = Some (close_price a q cur lookup)" and
    sz: "size ?p = size q" and
    a': "mockAccount t' =
           Some (closeAccountUpdate a q (realizedPnL ?p)
                   (calculateFee a (size q * close_price a q cur lookup) Taker)
                   (getCurrentUnrealizedPnL (activePositions t)))" and
    ps: "activePositions t' = map_delete (activePositions t) positionId"
    by auto
  show "step_balanced (t, OpClose positionId reason cur lookup, ?p, t')"
    using a a' x sz
    by (simp add: step_balanced_def account_balance_def op_fee_def closeAccountUpdate_fields)
  show "margin_consistent t'" if "margin_consistent t"
    using that a a' ps q
    by (simp add: margin_consistent_def closeAccountUpdate_fields
          sum_map_delete [where f = "\<lambda>e. marginUsed (snd e)"] distinct_map_delete)
qed

lemma apply_op_step:
  assumes "performed x (apply_op t x) = Some p"
  shows "step_balanced (t, x, p, snd (apply_op t x))"
    and "margin_consistent t \<Longrightarrow> ids_fresh t [x] \<Longrightarrow> margin_consistent (snd (apply_op t x))"
proof -
  show "step_balanced (t, x, p, snd (apply_op t x))"
  proof (cases x)
    case (OpOpen smb sd quantity lev env)
    with assms obtain t' where
      "openMarketOrder t smb sd quantity lev env = Inr (p, t')"
      by (auto simp: performed_def split: sum.splits)
    with OpOpen open_step(1) [OF this] show ?thesis by simp
  next
    case (OpClose positionId reason cur lookup)
    from closePosition_throws [of t positionId reason cur lookup] obtain e t' where
      c: "closePosition t positionId reason cur lookup = (Inl e, t')"
      by (cases "closePosition t positionId reason cur lookup") auto
    with assms OpClose have e: "e = NotAFunction" and p: "p = last (tradeHistory t')"
      by (auto simp: performed_def split: if_splits)
    from close_step(1) [OF c [unfolded e]] OpClose c p show ?thesis by simp
  qed
  show "margin_consistent (snd (apply_op t x))"
    if m: "margin_consistent t" and f: "ids_fresh t [x]"
  proof (cases x)
    case (OpOpen smb sd quantity lev env)
    with assms obtain t' where
      o: "openMarketOrder t smb sd quantity lev env = Inr (p, t')"
      by (auto simp: performed_def split: sum.splits)
    from f OpOpen have "env_newId env \<notin> fst ` set (activePositions t)" by simp
    from open_step(2) [OF o m this] OpOpen o show ?thesis by simp
  next
    case (OpClose positionId reason cur lookup)
    from closePosition_throws [of t positionId reason cur lookup] obtain e t' where
      c: "closePosition t positionId reason cur lookup = (Inl e, t')"
      by (cases "closePosition t positionId reason cur lookup") auto
    with assms OpClose have e: "e = NotAFunction"
      by (auto simp: performed_def split: if_splits)
    from close_step(2) [OF c [unfolded e] m] OpClose c show ?thesis by simp
  qed
qed

lemma init_margin_consistent: "margin_consistent (init_trader config)"
  by (simp add: margin_consistent_def init_trader_def initializeMockAccount_def)

text \<open>
  C1. Along every sequence of performed opens and closes, started in a state whose
  margin field is the sum of \<open>marginUsed\<close> over the open positions (the initial
  state is one), each operation changes the balance by minus the fee it charges plus
  the realized P&L it records, and after each operation the margin field is again
  the sum of \<open>marginUsed\<close> over the open positions. A close counts once it has
  passed its guards: it updates the books and archives the position, and only then
  throws from its closing log call. Each operation is atomic here, and the
  identifiers drawn by \<open>generatePositionId\<close> are taken to be new.
\<close>

theorem margin_accounting:
  assumes "margin_consistent t" and "ids_fresh t xs" and "run_ops t xs = Some steps"
  shows "map (\<lambda>s. fst (snd s)) steps = xs
         \<and> list_all step_balanced steps
         \<and> list_all step_margin_consistent steps"
  using assms
proof (induction xs arbitrary: t steps)
  case Nil
  then show ?case by simp
next
  case (Cons x xs)
  let ?t' = "snd (apply_op t x)"
  from Cons.prems(3) obtain p rest where
    ap: "performed x (apply_op t x) = Some p" and
    rn: "run_ops ?t' xs = Some rest" and
    st: "steps = (t, x, p, ?t') # rest"
    by (auto split: option.splits)
  from Cons.prems(2) ap have fr: "ids_fresh t [x]" and fr': "ids_fresh ?t' xs"
    by auto
  have mc: "margin_consistent ?t'"
    using apply_op_step(2) [OF ap Cons.prems(1) fr] .
  have sb: "step_balanced (t, x, p, ?t')"
    using apply_op_step(1) [OF ap] .
  from Cons.IH [OF mc fr' rn] st sb mc show ?case
    by (simp add: step_margin_consistent_def)
qed

theorem margin_accounting_witness:
  "\<exists>steps t'. run_ops (init_trader default_config) scenario_ops = Some steps
     \<and> apply_op scenario_trader (scenario_ops ! 1) = (Inl NotAFunction, t')
     \<and> map (\<lambda>s. snd (snd (snd s))) steps = [scenario_trader, t']
     \<and> account_balance t' = 9980 + 1173263 / 625 - 51948 * (4 / 100 / 100)
     \<and> list_all step_balanced steps
     \<and> list_all step_margin_consistent steps"
proof -
  obtain t' where c:
    "closePosition scenario_trader ''pos_1'' ''manual'' (Some 52000) None = (Inl NotAFunction, t')"
    using scenario_close_eq by blast
  have b: "account_balance t' = 9980 + 1173263 / 625 - 51948 * (4 / 100 / 100)"
    using c by (auto simp: eng_defs account_balance_def Let_def)
  let ?steps = "[(init_trader default_config, scenario_ops ! 0, scenario_position, scenario_trader),
                 (scenario_trader, scenario_ops ! 1, last (tradeHistory t'), t')]"
  have r: "run_ops (init_trader default_config) scenario_ops = Some ?steps"
    using c by (simp add: scenario_ops_def scenario_open_eq performed_def)
  have f: "ids_fresh (init_trader default_config) scenario_ops"
    using c by (simp add: scenario_ops_def scenario_open_eq performed_def)
      (simp add: init_trader_def)
  from margin_accounting [OF init_margin_consistent f r] r c b show ?thesis
    by (intro exI [of _ ?steps] exI [of _ t']) (simp add: scenario_ops_def)
qed
section \<open>Properties of the stop-loss updates\<close>

lemma updateTrailingStop_side [simp]:
  "pos_side (updateTrailingStop pct p price) = pos_side p"
  by (simp add: updateTrailingStop_def Let_def split: side.splits)

lemma updateTrailingStop_stop:
  "ts_enabled p \<Longrightarrow>
   stopLoss (updateTrailingStop pct p price) =
     (if more_favourable (pos_side p) (proposed_stop pct p price) (stopLoss p)
      then proposed_stop pct p price else stopLoss p)"
  by (simp add: updateTrailingStop_def Let_def more_favourable_def proposed_stop_def
        calculatePositionPnL_def split: side.splits)

lemma updateTrailingStop_not_worse:
  "not_worse (pos_side p) (stopLoss p) (stopLoss (updateTrailingStop pct p price))"
  by (cases "ts_enabled p")
     (simp_all add: updateTrailingStop_stop not_worse_def, simp add: updateTrailingStop_def)

lemma revaluePosition_side [simp]:
  "pos_side (revaluePosition pct cached p) = pos_side p"
  by (simp add: revaluePosition_def Let_def)

lemma revaluePosition_not_worse:
  "not_worse (pos_side p) (stopLoss p) (stopLoss (revaluePosition pct cached p))"
proof (cases "truthy cached")
  case True
  let ?p1 = "p \<lparr> currentPrice := the cached,
                  unrealizedPnL := calculatePositionPnL p (the cached) \<rparr>"
  have "not_worse (pos_side ?p1) (stopLoss ?p1)
          (stopLoss (updateTrailingStop pct ?p1 (the cached)))"
    by (rule updateTrailingStop_not_worse)
  with True show ?thesis by (simp add: revaluePosition_def Let_def)
next
  case False
  then show ?thesis by (simp add: revaluePosition_def not_worse_def)
qed

lemma updateActiveTrailing_stop:
  "updateActiveTrailing vol tr p = (tr', p') \<Longrightarrow>
   pos_side p' = pos_side p \<and> tr_side tr' = tr_side tr \<and> status p' = status p \<and>
   (stopLoss p' = stopLoss p \<or>
    (\<exists>c. calculateNewStopLoss vol tr = Some c \<and> stopLoss p' = c
         \<and> more_favourable (tr_side tr) c (tr_currentStopLoss tr)))"
  by (auto simp: updateActiveTrailing_def Let_def shouldUpdateStopLoss_def
        updatePositionStopLoss_def more_favourable_def truthy_def
      split: if_splits option.splits side.splits)

lemma pre_active_side:
  "tr_side (updateProfitMetrics tr) = tr_side tr"
  "tr_side (checkTriggerActivation tr) = tr_side tr"
  "tr_side (checkBreakevenActivation tr) = tr_side tr"
  by (simp_all add: updateProfitMetrics_def checkTriggerActivation_def activateTrailing_def
        checkBreakevenActivation_def setBreakeven_def Let_def)

lemma pre_active_stop:
  "tr_currentStopLoss (updateProfitMetrics tr) = tr_currentStopLoss tr"
  "tr_currentStopLoss (checkTriggerActivation tr) = tr_currentStopLoss tr"
  "tr_currentStopLoss (checkBreakevenActivation tr) = tr_currentStopLoss tr"
  by (simp_all add: updateProfitMetrics_def checkTriggerActivation_def activateTrailing_def
        checkBreakevenActivation_def setBreakeven_def Let_def)

lemma updateTrailing_stop:
  assumes "updateTrailing vol tr p = (tro, p')" and "tr_side tr = pos_side p"
  shows "pos_side p' = pos_side p
         \<and> not_worse (pos_side p) (stopLoss p) (stopLoss p')
         \<and> (case tro of None \<Rightarrow> True | Some tr' \<Rightarrow> tr_side tr' = pos_side p)"
proof -
  let ?tr1 = "updateProfitMetrics
                (tr \<lparr> tr_currentPrice := currentPrice p, tr_currentStopLoss := stopLoss p \<rparr>)"
  let ?tr2 = "if tr_status ?tr1 = Waiting then checkTriggerActivation ?tr1 else ?tr1"
  let ?tr3 = "if \<not> tr_isBreakevenSet ?tr2 then checkBreakevenActivation ?tr2 else ?tr2"
  have sd: "tr_side ?tr3 = pos_side p"
    using assms(2) by (simp add: pre_active_side)
  have st: "tr_currentStopLoss ?tr3 = stopLoss p"
    by (simp add: pre_active_stop)
  show ?thesis
  proof (cases "status p = Open \<and> tr_status ?tr3 = Active")
    case True
    obtain tr4 p4 where u: "updateActiveTrailing vol ?tr3 p = (tr4, p4)"
      by (cases "updateActiveTrailing vol ?tr3 p")
    from assms(1) True u have e: "tro = Some tr4" "p' = p4"
      by (simp_all add: updateTrailing_def Let_def)
    from updateActiveTrailing_stop [OF u] sd st e
    show ?thesis
      by (auto simp: not_worse_def)
  next
    case False
    with assms(1) have e: "p' = p" "tro = None \<or> tro = Some ?tr3"
      by (auto simp: updateTrailing_def Let_def split: if_splits)
    from e sd show ?thesis
      by (auto simp: not_worse_def)
  qed
qed

lemma pos_step_invariant:
  assumes "trailing_matches s"
  shows "pos_side (ps_position (pos_step s e)) = pos_side (ps_position s)
         \<and> trailing_matches (pos_step s e)
         \<and> not_worse (pos_side (ps_position s)) (stopLoss (ps_position s))
             (stopLoss (ps_position (pos_step s e)))"
proof (cases e)
  case (TrailTick vol)
  show ?thesis
  proof (cases "ps_trailing s")
    case None
    with TrailTick assms show ?thesis
      by (simp add: not_worse_def)
  next
    case (Some tr)
    obtain tro p' where u: "updateTrailing vol tr (ps_position s) = (tro, p')"
      by (cases "updateTrailing vol tr (ps_position s)")
    from assms Some have m: "tr_side tr = pos_side (ps_position s)"
      by (simp add: trailing_matches_def)
    from updateTrailing_stop [OF u m] TrailTick Some u
    show ?thesis
      by (auto simp: trailing_matches_def split: option.splits)
  qed
next
  case (MockTick pct cached)
  with assms revaluePosition_not_worse [of "ps_position s" pct cached]
  show ?thesis
    by (auto simp: trailing_matches_def split: option.splits)
qed (use assms in \<open>auto simp: trailing_matches_def not_worse_def updatePositionPrice_def
      enableTrailingStop_def Let_def startTrailing_def calculateTriggerPrice_def
      setBreakeven_def activateTrailing_def split: option.splits\<close>)

lemma not_worse_trans:
  "not_worse sd a b \<Longrightarrow> not_worse sd b c \<Longrightarrow> not_worse sd a c"
  by (auto simp: not_worse_def more_favourable_def split: side.splits)

lemma stop_trace_hd: "hd (stop_trace s es) = stopLoss (ps_position s)"
  by (cases es) simp_all

lemma stop_trace_all_not_worse:
  "trailing_matches s \<Longrightarrow>
   \<forall>x \<in> set (stop_trace s es).
     not_worse (pos_side (ps_position s)) (stopLoss (ps_position s)) x"
proof (induction es arbitrary: s)
  case Nil
  then show ?case by (simp add: not_worse_def)
next
  case (Cons e es)
  from pos_step_invariant [OF Cons.prems, of e]
  have sd: "pos_side (ps_position (pos_step s e)) = pos_side (ps_position s)"
    and tm: "trailing_matches (pos_step s e)"
    and nw: "not_worse (pos_side (ps_position s)) (stopLoss (ps_position s))
               (stopLoss (ps_position (pos_step s e)))"
    by simp_all
  have "not_worse (pos_side (ps_position s)) (stopLoss (ps_position s)) x"
    if "x \<in> set (stop_trace (pos_step s e) es)" for x
  proof -
    from Cons.IH [OF tm] that sd
    have "not_worse (pos_side (ps_position s)) (stopLoss (ps_position (pos_step s e))) x"
      by simp
    with nw show ?thesis by (rule not_worse_trans)
  qed
  then show ?case by (simp add: not_worse_def)
qed

lemma stop_trace_sorted_wrt:
  "trailing_matches s \<Longrightarrow>
   sorted_wrt (not_worse (pos_side (ps_position s))) (stop_trace s es)"
proof (induction es arbitrary: s)
  case Nil
  then show ?case by simp
next
  case (Cons e es)
  from pos_step_invariant [OF Cons.prems, of e]
  have sd: "pos_side (ps_position (pos_step s e)) = pos_side (ps_position s)"
    and tm: "trailing_matches (pos_step s e)"
    and nw: "not_worse (pos_side (ps_position s)) (stopLoss (ps_position s))
               (stopLoss (ps_position (pos_step s e)))"
    by simp_all
  have "\<forall>x \<in> set (stop_trace (pos_step s e) es).
          not_worse (pos_side (ps_position s)) (stopLoss (ps_position s)) x"
    using stop_trace_all_not_worse [OF tm, of es] sd nw
    by (auto intro: not_worse_trans)
  with Cons.IH [OF tm] sd show ?case by simp
qed

text \<open>
  C3. Over any sequence of events in the life of an open position, the stop-loss
  values form a non-decreasing sequence for a long and a non-increasing sequence for
  a short. The engine's own trailing rule applies its proposed stop exactly when it
  is strictly more favourable than the current one, and the trailing-stop engine
  leaves position and context untouched when its candidate is not strictly more
  favourable than the current stop.
\<close>

theorem stop_loss_monotone:
  assumes "trailing_matches s"
  shows "(pos_side (ps_position s) = Long \<longrightarrow> sorted (stop_trace s es))
       \<and> (pos_side (ps_position s) = Short \<longrightarrow> sorted (rev (stop_trace s es)))
       \<and> (ts_enabled p \<longrightarrow>
            stopLoss (updateTrailingStop pct p price) =
              (if more_favourable (pos_side p) (proposed_stop pct p price) (stopLoss p)
               then proposed_stop pct p price else stopLoss p))
       \<and> (\<not> more_favourable (tr_side tr) c (tr_currentStopLoss tr) \<longrightarrow>
            calculateNewStopLoss vol tr = Some c \<longrightarrow>
            updateActiveTrailing vol tr q = (tr, q))"
proof -
  have sw: "sorted_wrt (not_worse (pos_side (ps_position s))) (stop_trace s es)"
    using stop_trace_sorted_wrt [OF assms] .
  have l: "pos_side (ps_position s) = Long \<longrightarrow> sorted (stop_trace s es)"
  proof
    assume "pos_side (ps_position s) = Long"
    with sw have "sorted_wrt (not_worse Long) (stop_trace s es)" by simp
    then have "sorted_wrt (\<le>) (stop_trace s es)"
      by (rule sorted_wrt_mono_rel [rotated])
         (auto simp: not_worse_def more_favourable_def)
    then show "sorted (stop_trace s es)" by simp
  qed
  have r: "pos_side (ps_position s) = Short \<longrightarrow> sorted (rev (stop_trace s es))"
  proof
    assume "pos_side (ps_position s) = Short"
    with sw have "sorted_wrt (not_worse Short) (stop_trace s es)" by simp
    then have "sorted_wrt (\<ge>) (stop_trace s es)"
      by (rule sorted_wrt_mono_rel [rotated])
         (auto simp: not_worse_def more_favourable_def)
    then show "sorted (rev (stop_trace s es))"
      by (simp add: sorted_wrt_rev)
  qed
  have a: "\<not> more_favourable (tr_side tr) c (tr_currentStopLoss tr) \<longrightarrow>
            calculateNewStopLoss vol tr = Some c \<longrightarrow>
            updateActiveTrailing vol tr q = (tr, q)"
    by (auto simp: updateActiveTrailing_def Let_def shouldUpdateStopLoss_def
          more_favourable_def truthy_def split: side.splits)
  from l r a show ?thesis
    by (simp add: updateTrailingStop_stop)
qed

lemmas trail_defs = conservative_config_def scenario_pos_state_def scenario_events_def
  scenario_position_def startTrailing_def calculateTriggerPrice_def updateTrailing_def
  updateProfitMetrics_def checkTriggerActivation_def activateTrailing_def
  checkBreakevenActivation_def setBreakeven_def updateActiveTrailing_def
  calculateNewStopLoss_def calculatePercentageTrailing_def shouldUpdateStopLoss_def
  updatePositionStopLoss_def updatePositionPrice_def enableTrailingStop_def
  revaluePosition_def updateTrailingStop_def calculatePositionPnL_def truthy_def

lemma scenario_stop_trace:
  "stop_trace scenario_pos_state scenario_events =
     [49049, 49049, 49049, 51525, 51525, 51525, 51525, 52815, 52815]"
  by (simp add: trail_defs Let_def)

theorem stop_loss_monotone_witness:
  "trailing_matches scenario_pos_state
   \<and> pos_side (ps_position scenario_pos_state) = Long
   \<and> sorted (stop_trace scenario_pos_state scenario_events)
   \<and> stop_trace scenario_pos_state scenario_events =
       [49049, 49049, 49049, 51525, 51525, 51525, 51525, 52815, 52815]"
proof -
  have m: "trailing_matches scenario_pos_state"
    by (simp add: trailing_matches_def scenario_pos_state_def)
  have l: "pos_side (ps_position scenario_pos_state) = Long"
    by (simp add: scenario_pos_state_def scenario_position_def)
  from stop_loss_monotone [OF m, of scenario_events] l m scenario_stop_trace
  show ?thesis by simp
qed

section \<open>Properties of the risk manager\<close>

lemmas risk_defs = day_start_risk_manager_def init_risk_manager_def initializeRiskProfile_def
  setupRiskLimits_def initializeDailyStats_def init_trader_def initializeMockAccount_def
  default_config_def or_default_def or_default_bool_def updateRiskMetrics_def
  getCurrentRiskMetrics_def checkRiskLevels_def calculateCurrentRiskLevel_def
  risk_level_of_def recordRiskEvent_def triggerRiskEvent_def emergency_triggers_def
  calculateTotalExposure_def getCurrentUnrealizedPnL_def

text \<open>
  C5. The source computes \<open>dailyLossPercent\<close> as the absolute value of the relative
  change of the balance, so the \<open>daily_loss_limit\<close> trigger also fires on a gain.
  Starting balance 10000, balance 11100, \<open>maxDailyLoss\<close> 10: the decline is
  \<open>-11\<close> percent (the balance rose), yet the trigger is among those of the cycle.
\<close>

theorem daily_loss_fires_on_gain:
  "daily_loss_limit_fires day_start_risk_manager gain_trader
   \<and> daily_decline_percent day_start_risk_manager gain_trader = - 11
   \<and> rp_maxDailyLoss (riskProfile day_start_risk_manager) = 10"
  by (simp add: daily_loss_limit_fires_def daily_decline_percent_def gain_trader_def
        risk_defs Let_def)

text \<open>The scenario of the specification: a balance of 8900 fires the trigger.\<close>

lemma daily_loss_fires_on_loss:
  "daily_loss_limit_fires day_start_risk_manager loss_trader
   \<and> daily_decline_percent day_start_risk_manager loss_trader = 11"
  by (simp add: daily_loss_limit_fires_def daily_decline_percent_def loss_trader_def
        risk_defs Let_def)




text \<open>What one close leaves of the map of open positions.\<close>

lemma closePosition_positions:
  assumes "trader_wf t" and "activePositions t = e # es"
  shows "activePositions (snd (closePosition t (pos_id (snd e)) reason None lookup))
           = (if truthy lookup then es else e # es)"
proof -
  from assms have k: "pos_id (snd e) = fst e" and st: "status (snd e) = Open"
    and d: "fst e \<notin> fst ` set es"
    by (auto simp: trader_wf_def)
  from assms obtain a where a: "mockAccount t = Some a"
    by (auto simp: trader_wf_def)
  from assms have m: "map_of (activePositions t) (fst e) = Some (snd e)"
    by (cases e) simp
  from d have "\<forall>x \<in> set es. fst x \<noteq> fst e" by (metis image_eqI)
  then have f: "filter (\<lambda>x. fst x \<noteq> fst e) es = es"
    by (simp add: filter_id_conv)
  from k st a m f assms(2) show ?thesis
    by (simp add: closePosition_def Let_def truthy_def map_delete_def Format_duration_throws)
qed

lemma emergency_close_loop_first:
  "emergency_close_loop prices t (p # ps)
     = ([], False, snd (closePosition t (pos_id p) ''emergency_close'' None (prices (symbol p))))"
proof -
  from closePosition_throws [of t "pos_id p" "''emergency_close''" None "prices (symbol p)"]
  obtain e t' where
    "closePosition t (pos_id p) ''emergency_close'' None (prices (symbol p)) = (Inl e, t')"
    by (cases "closePosition t (pos_id p) ''emergency_close'' None (prices (symbol p))") auto
  then show ?thesis by simp
qed

lemma handle_when_active:
  assumes "emergencyMode rm"
  shows "\<exists>rm'. handleEmergencyTrigger prices (rm, t) trig = (rm', t)
           \<and> emergencyMode rm' \<and> riskProfile rm' = riskProfile rm
           \<and> activations rm' = activations rm"
  using assms
  by (simp add: handleEmergencyTrigger_def recordRiskEvent_def triggerRiskEvent_def
        activations_def Let_def)

lemma foldl_when_active:
  assumes "emergencyMode rm"
  shows "\<exists>rm'. foldl (handleEmergencyTrigger prices) (rm, t) trigs = (rm', t)
           \<and> emergencyMode rm' \<and> riskProfile rm' = riskProfile rm
           \<and> activations rm' = activations rm"
  using assms
proof (induction trigs arbitrary: rm)
  case Nil
  then show ?case by simp
next
  case (Cons trig trigs)
  from handle_when_active [OF Cons.prems, of prices t trig] obtain rm1 where
    h: "handleEmergencyTrigger prices (rm, t) trig = (rm1, t)"
    and e: "emergencyMode rm1" and r: "riskProfile rm1 = riskProfile rm"
    and a: "activations rm1 = activations rm"
    by blast
  from Cons.IH [OF e] h r a show ?case by auto
qed

lemma handle_first:
  assumes "\<not> emergencyMode rm"
    and "emergency_close_loop prices t (map snd (activePositions t)) = (cs, ok, t')"
  shows "\<exists>rm'. handleEmergencyTrigger prices (rm, t) trig = (rm', t')
           \<and> emergencyMode rm' \<and> rp_level (riskProfile rm') = Critical
           \<and> activations rm' = activations rm + 1
           \<and> (ok \<longrightarrow> rp_maxPositions (riskProfile rm') = 0)
           \<and> (\<not> ok \<longrightarrow> rp_maxPositions (riskProfile rm') = rp_maxPositions (riskProfile rm))"
  using assms
  by (simp add: handleEmergencyTrigger_def activateEmergencyMode_def
        executeEmergencyActions_def recordRiskEvent_def triggerRiskEvent_def
        activations_def Let_def)

text \<open>
  C6. The first trigger enters emergency mode, forces the level to critical and emits
  one activation event, and no later trigger re-runs the activation. But the batch of
  closes does not do what its own comments announce (close all positions, then stop
  new trades): every \<open>closePosition\<close> throws from its closing log call, so with at
  least one open position the loop is left through the \<open>catch\<close> at the first of
  them. That position is closed when an exit price is available for it, every other
  position stays open, and \<open>maxPositions\<close> keeps its value. New positions are blocked
  only when there was no open position at all.
\<close>

theorem emergency_stops_at_first_close:
  "(\<not> emergencyMode rm \<and> activePositions t \<noteq> [] \<longrightarrow>
      (\<exists>rm' t'.
          foldl (handleEmergencyTrigger prices) (rm, t) (trig # trigs) = (rm', t')
        \<and> t' = snd (closePosition t (pos_id (snd (hd (activePositions t)))) ''emergency_close''
                     None (prices (symbol (snd (hd (activePositions t))))))
        \<and> emergencyMode rm'
        \<and> rp_level (riskProfile rm') = Critical
        \<and> activations rm' = activations rm + 1
        \<and> rp_maxPositions (riskProfile rm') = rp_maxPositions (riskProfile rm)
        \<and> (trader_wf t \<longrightarrow>
              activePositions t' =
                (if truthy (prices (symbol (snd (hd (activePositions t)))))
                 then tl (activePositions t) else activePositions t))))
   \<and> (\<not> emergencyMode rm \<and> activePositions t = [] \<longrightarrow>
      (\<exists>rm'. foldl (handleEmergencyTrigger prices) (rm, t) (trig # trigs) = (rm', t)
        \<and> emergencyMode rm'
        \<and> activations rm' = activations rm + 1
        \<and> rp_maxPositions (riskProfile rm') = 0))
   \<and> (emergencyMode rm \<longrightarrow>
      (\<exists>rm'. foldl (handleEmergencyTrigger prices) (rm, t) trigs = (rm', t)
        \<and> emergencyMode rm'
        \<and> activations rm' = activations rm))"
proof (intro conjI impI)
  assume "\<not> emergencyMode rm \<and> activePositions t \<noteq> []"
  then have off: "\<not> emergencyMode rm" and ne: "activePositions t \<noteq> []" by simp_all
  from ne obtain e es where es: "activePositions t = e # es"
    by (cases "activePositions t") auto
  let ?t1 = "snd (closePosition t (pos_id (snd e)) ''emergency_close'' None
                    (prices (symbol (snd e))))"
  have l: "emergency_close_loop prices t (map snd (activePositions t)) = ([], False, ?t1)"
    unfolding es by (simp only: list.map emergency_close_loop_first)
  from handle_first [OF off l, of trig] obtain rm1 where
    h: "handleEmergencyTrigger prices (rm, t) trig = (rm1, ?t1)"
    and e1: "emergencyMode rm1" and c1: "rp_level (riskProfile rm1) = Critical"
    and a1: "activations rm1 = activations rm + 1"
    and m1: "rp_maxPositions (riskProfile rm1) = rp_maxPositions (riskProfile rm)"
    by auto
  from foldl_when_active [OF e1, of prices ?t1 trigs] obtain rm2 where
    f: "foldl (handleEmergencyTrigger prices) (rm1, ?t1) trigs = (rm2, ?t1)"
    and e2: "emergencyMode rm2" and r2: "riskProfile rm2 = riskProfile rm1"
    and a2: "activations rm2 = activations rm1"
    by blast
  have rest: "activePositions ?t1 = (if truthy (prices (symbol (snd e))) then es else e # es)"
    if "trader_wf t"
    using closePosition_positions [OF that es] .
  from h f e2 c1 r2 a1 a2 m1 rest es
  show "\<exists>rm' t'.
          foldl (handleEmergencyTrigger prices) (rm, t) (trig # trigs) = (rm', t')
        \<and> t' = snd (closePosition t (pos_id (snd (hd (activePositions t)))) ''emergency_close''
                     None (prices (symbol (snd (hd (activePositions t))))))
        \<and> emergencyMode rm'
        \<and> rp_level (riskProfile rm') = Critical
        \<and> activations rm' = activations rm + 1
        \<and> rp_maxPositions (riskProfile rm') = rp_maxPositions (riskProfile rm)
        \<and> (trader_wf t \<longrightarrow>
              activePositions t' =
                (if truthy (prices (symbol (snd (hd (activePositions t)))))
                 then tl (activePositions t) else activePositions t))"
    by (intro exI [of _ rm2] exI [of _ ?t1]) simp
next
  assume "\<not> emergencyMode rm \<and> activePositions t = []"
  then have off: "\<not> emergencyMode rm" and em: "activePositions t = []" by simp_all
  have l: "emergency_close_loop prices t (map snd (activePositions t)) = ([], True, t)"
    by (simp add: em)
  from handle_first [OF off l, of trig] obtain rm1 where
    h: "handleEmergencyTrigger prices (rm, t) trig = (rm1, t)"
    and e1: "emergencyMode rm1"
    and a1: "activations rm1 = activations rm + 1"
    and m1: "rp_maxPositions (riskProfile rm1) = 0"
    by auto
  from foldl_when_active [OF e1, of prices t trigs] obtain rm2 where
    f: "foldl (handleEmergencyTrigger prices) (rm1, t) trigs = (rm2, t)"
    and e2: "emergencyMode rm2" and r2: "riskProfile rm2 = riskProfile rm1"
    and a2: "activations rm2 = activations rm1"
    by blast
  from h f e2 r2 a1 a2 m1
  show "\<exists>rm'. foldl (handleEmergencyTrigger prices) (rm, t) (trig # trigs) = (rm', t)
        \<and> emergencyMode rm'
        \<and> activations rm' = activations rm + 1
        \<and> rp_maxPositions (riskProfile rm') = 0"
    by (intro exI [of _ rm2]) simp
next
  assume "emergencyMode rm"
  from foldl_when_active [OF this, of prices t trigs]
  show "\<exists>rm'. foldl (handleEmergencyTrigger prices) (rm, t) trigs = (rm', t)
        \<and> emergencyMode rm' \<and> activations rm' = activations rm"
    by blast
qed

text \<open>
  C6 on the scenario account with its two open positions and exit prices for both:
  after two triggers emergency mode is on and was activated once, but only the first
  position has been closed; the second is still open and \<open>maxPositions\<close> is still 5.
\<close>

theorem emergency_stops_at_first_close_witness:
  "\<exists>rm' t'. foldl (handleEmergencyTrigger (\<lambda>s. if s = ''BTCUSDT'' then Some 52000 else Some 3000))
                (day_start_risk_manager, two_position_trader)
                [daily_loss_trigger, drawdown_trigger] = (rm', t')
     \<and> map fst (activePositions two_position_trader) = [''pos_1'', ''pos_2'']
     \<and> emergencyMode rm'
     \<and> activations rm' = 1
     \<and> map fst (activePositions t') = [''pos_2'']
     \<and> list_all (\<lambda>e. status (snd e) = Open) (activePositions t')
     \<and> pos_id (last (tradeHistory t')) = ''pos_1''
     \<and> emergency_closed (last (tradeHistory t'))
     \<and> rp_maxPositions (riskProfile rm') = 5"
proof -
  let ?prices = "\<lambda>s. if s = ''BTCUSDT'' then Some 52000 else Some (3000 :: real)"
  have ps: "activePositions two_position_trader =
              [(''pos_1'', scenario_position), (''pos_2'', second_position)]
            \<and> mockAccount two_position_trader \<noteq> None"
    by (simp add: two_position_trader_def second_env_def second_position_def
        scenario_trader_def scenario_position_def openMarketOrder_def applySlippage_def
        calculateFee_def calculateATRStopLoss_def initializeMockAccount_def
        default_config_def or_default_def or_default_bool_def truthy_def Let_def)
  then have wf: "trader_wf two_position_trader"
    by (simp add: trader_wf_def scenario_position_def second_position_def)
  have off: "\<not> emergencyMode day_start_risk_manager \<and> activePositions two_position_trader \<noteq> []"
    using ps by (simp add: risk_defs)
  have d: "activations day_start_risk_manager = 0
           \<and> rp_maxPositions (riskProfile day_start_risk_manager) = 5"
    by (simp add: activations_def risk_defs)
  have pr: "truthy (?prices (symbol (snd (hd (activePositions two_position_trader)))))"
    using ps by (simp add: truthy_def scenario_position_def)
  from emergency_stops_at_first_close
         [of day_start_risk_manager two_position_trader ?prices daily_loss_trigger
             "[drawdown_trigger]", THEN conjunct1, THEN mp, OF off]
  obtain rm' t' where
    f: "foldl (handleEmergencyTrigger ?prices) (day_start_risk_manager, two_position_trader)
          [daily_loss_trigger, drawdown_trigger] = (rm', t')"
    and tq: "t' = snd (closePosition two_position_trader
                         (pos_id (snd (hd (activePositions two_position_trader))))
                         ''emergency_close'' None
                         (?prices (symbol (snd (hd (activePositions two_position_trader))))))"
    and e: "emergencyMode rm'"
    and a: "activations rm' = activations day_start_risk_manager + 1"
    and m: "rp_maxPositions (riskProfile rm')
              = rp_maxPositions (riskProfile day_start_risk_manager)"
    and r: "trader_wf two_position_trader \<longrightarrow>
              activePositions t' =
                (if truthy (?prices (symbol (snd (hd (activePositions two_position_trader)))))
                 then tl (activePositions two_position_trader)
                 else activePositions two_position_trader)"
    by blast
  from r wf pr have "activePositions t' = tl (activePositions two_position_trader)" by simp
  with ps have "map fst (activePositions t') = [''pos_2'']
     \<and> list_all (\<lambda>e. status (snd e) = Open) (activePositions t')
     \<and> map fst (activePositions two_position_trader) = [''pos_1'', ''pos_2'']"
    by (simp add: second_position_def)
  moreover
  from ps obtain acc where acc: "mockAccount two_position_trader = Some acc" by auto
  have "map_of (activePositions two_position_trader) ''pos_1'' = Some scenario_position"
    and "status scenario_position = Open"
    and "truthy (if truthy None then None else Some 52000)"
    using ps by (simp_all add: scenario_position_def truthy_def)
  from closePosition_guarded [OF this acc, of "''emergency_close''"] tq ps
  have "pos_id (last (tradeHistory t')) = ''pos_1'' \<and> emergency_closed (last (tradeHistory t'))"
    by (auto simp: emergency_closed_def scenario_position_def)
  ultimately show ?thesis
    using f e a m d by (intro exI [of _ rm'] exI [of _ t']) simp
qed
section \<open>Properties of the timeframe validator\<close>

lemmas val_defs = startSequentialValidation_def executeSequentialValidation_def
  validateTimeframe_def monitorTimeframeWindow_def finalizeValidation_def
  get_cached_def upd_obj_def advance_def timeframe_confirms_def checkTimeframeSignal_def
  checkTimeframeThresholds_def or_default_def count_check_def retry_delay_def
  getTimeframeCheckInterval_def cancelled_or_gone_def state_of_def
  empty_vstate_def oversold_reading_def flat_reading_def

lemma confirming_run:
  "\<exists>vs'. startSequentialValidation confirming_env empty_vstate ''v1'' ''BTCUSDT'' Long
           = (Inr True, vs')
     \<and> state_of vs' ''v1'' = Some Confirmed
     \<and> vs_polls vs' = [(TF4h, 0, Inr True), (TF1h, 0, Inr True), (TF15m, 0, Inr True)]"
  by (simp add: val_defs confirming_env_def Let_def monitor_loop.simps)

lemma map_of_upd_obj:
  "map_of (vs_objects (upd_obj vs k f)) k' =
     (if k' = k then map_option f (map_of (vs_objects vs) k') else map_of (vs_objects vs) k')"
proof -
  have "map_of (map (\<lambda>e. if fst e = k then (fst e, f (snd e)) else e) m) k' =
          (if k' = k then map_option f (map_of m k') else map_of m k')" for m
    by (induction m) auto
  then show ?thesis by (simp add: upd_obj_def)
qed

lemma upd_obj_fields:
  "vs_polls (upd_obj vs k f) = vs_polls vs"
  "vs_cached (upd_obj vs k f) = vs_cached vs"
  "vs_history (upd_obj vs k f) = vs_history vs"
  by (simp_all add: upd_obj_def)

lemma obj_exists_upd_obj: "obj_exists (upd_obj vs k f) k' = obj_exists vs k'"
  by (simp add: obj_exists_def map_of_upd_obj)


lemma obj_exists_cong:
  "vs_objects a = vs_objects b \<Longrightarrow> obj_exists a k = obj_exists b k"
  by (simp add: obj_exists_def)








lemma confirmed_by_Cons: "confirmed_by ps \<Longrightarrow> confirmed_by (p # ps)"
  by (simp add: confirmed_by_def)



lemma state_of_upd_obj:
  "obj_exists vs k \<Longrightarrow> state_of (upd_obj vs k f) k = map_option (\<lambda>v. v_state (f v)) (map_of (vs_objects vs) k)"
  by (simp add: state_of_def map_of_upd_obj option.map_comp comp_def)

lemma state_of_cong: "vs_objects a = vs_objects b \<Longrightarrow> state_of a k = state_of b k"
  by (simp add: state_of_def)

lemma finalizeValidation_result:
  assumes "finalizeValidation vs k b reason = (r, vs')"
  shows "vs_polls vs' = vs_polls vs
       \<and> obj_exists vs' k = obj_exists vs k
       \<and> (if get_cached vs k = None
          then r = Inl ValidationNotFound \<and> vs' = vs
          else r = Inr b \<and> state_of vs' k = Some (if b then Confirmed else Rejected))"
proof (cases "get_cached vs k")
  case None
  with assms show ?thesis by (simp add: finalizeValidation_def)
next
  case (Some v)
  then have ex: "obj_exists vs k" and m: "map_of (vs_objects vs) k = Some v"
    by (simp_all add: get_cached_def obj_exists_def split: if_splits)
  let ?f = "\<lambda>v. v \<lparr> v_state := (if b then Confirmed else Rejected),
                     v_endTime := Some (vs_clock vs), v_finalReason := Some reason \<rparr>"
  from assms Some have r: "r = Inr b"
    and o: "vs_objects vs' = vs_objects (upd_obj vs k ?f)"
    and p: "vs_polls vs' = vs_polls vs"
    by (auto simp: finalizeValidation_def Let_def upd_obj_fields)
  from o have "state_of vs' k = state_of (upd_obj vs k ?f) k" by (rule state_of_cong)
  with ex m have st: "state_of vs' k = Some (if b then Confirmed else Rejected)"
    by (simp add: state_of_upd_obj)
  from o have "obj_exists vs' k = obj_exists (upd_obj vs k ?f) k" by (rule obj_exists_cong)
  with r p st Some show ?thesis by (simp add: obj_exists_upd_obj)
qed

lemma rejected_on_error:
  "obj_exists vs k \<Longrightarrow>
   state_of (upd_obj vs k (\<lambda>v. v \<lparr> v_state := Rejected, v_error := e \<rparr>)) k = Some Rejected"
  by (auto simp: state_of_upd_obj obj_exists_def)

lemma finalize_false_rejects:
  assumes "finalizeValidation vs k False reason = (r, vs2)" and "obj_exists vs k"
    and "res = (case r of Inl e \<Rightarrow> upd_obj vs2 k (\<lambda>v. v \<lparr> v_state := Rejected, v_error := Some ''error'' \<rparr>)
                        | Inr ok \<Rightarrow> vs2)"
  shows "state_of res k = Some Rejected \<and> vs_polls res = vs_polls vs"
proof (cases "get_cached vs k")
  case None
  with finalizeValidation_result [OF assms(1)] assms(2,3) show ?thesis
    by (simp add: rejected_on_error upd_obj_fields)
next
  case (Some v)
  with finalizeValidation_result [OF assms(1)] assms(3) show ?thesis
    by simp
qed




lemma rethrow_state:
  assumes "rethrow k (r, s) = (res, vs')" and "obj_exists s k"
  shows "vs_polls vs' = vs_polls s"
    and "r \<noteq> Inr True \<Longrightarrow> state_of s k = Some Rejected \<or> (\<exists>e. r = Inl e)
         \<Longrightarrow> state_of vs' k = Some Rejected"
    and "(\<exists>e. r = Inl e) \<Longrightarrow> state_of vs' k = Some Rejected"
    and "(\<exists>b. r = Inr b) \<Longrightarrow> vs' = s"
  using assms
  by (auto simp: rethrow_def rejected_on_error upd_obj_fields split: sum.splits)























section \<open>Properties of the signal generator\<close>

lemmas sig_defs = analyzeSymbol_def analyzeTimeframe_def calculateOverallSignal_def
  calculateConfidence_def generateSignalList_def NadarayaWatson_analyzeMultiTimeframe_def
  RSI_analyzeMultiTimeframe_def MovingAverages_analyzeMultiTimeframe_def
  analysed_timeframes_def strength_score_def weights_def or_default_def

lemma analyzeTimeframe_total: "\<exists>a. analyzeTimeframe (Some th) tf ind = Inr a"
  by (cases "ind_nadaraya ind") (simp_all add: analyzeTimeframe_def Let_def)

lemma analyzeTimeframe_no_reading:
  assumes "ind_nadaraya ind = None" and "ind_rsi ind = None" and "ind_ma ind = None"
  shows "analyzeTimeframe thresholds tf ind = Inr quiet_analysis"
  using assms by (simp add: analyzeTimeframe_def quiet_analysis_def)

lemma insufficient_no_reading:
  assumes "insufficient_data md" and "tf \<in> set analysed_timeframes"
  shows "NadarayaWatson_analyzeMultiTimeframe lib md tf = None"
    and "RSI_analyzeMultiTimeframe lib md tf = None"
    and "MovingAverages_analyzeMultiTimeframe lib md tf = None"
proof -
  from assms have "md tf = None \<or> md tf = Some []"
    by (simp add: insufficient_data_def list_all_iff)
  then show "NadarayaWatson_analyzeMultiTimeframe lib md tf = None"
    and "RSI_analyzeMultiTimeframe lib md tf = None"
    and "MovingAverages_analyzeMultiTimeframe lib md tf = None"
    by (auto simp: NadarayaWatson_analyzeMultiTimeframe_def RSI_analyzeMultiTimeframe_def
        MovingAverages_analyzeMultiTimeframe_def)
qed

lemma confidence_bounds: "0 \<le> calculateConfidence ta \<and> calculateConfidence ta \<le> 1"
  by (simp add: calculateConfidence_def Let_def split: prod.splits)

lemma quiet_overall:
  assumes "\<forall>tf \<in> set analysed_timeframes. ta tf = quiet_analysis"
  shows "ov_signal (calculateOverallSignal ta) = SigNeutral"
    and "calculateConfidence ta = 0"
  using assms
  by (simp_all add: calculateOverallSignal_def calculateConfidence_def quiet_analysis_def
      analysed_timeframes_def strength_score_def Let_def)

text \<open>C9, amended. Called with a symbol, market data and a threshold table,
  \<open>analyzeSymbol\<close> returns a Signal and throws nothing: the recommendation is the overall
  signal of the three timeframes, the confidence lies between 0 and 1, and when no timeframe
  has a candle the recommendation is neutral, the confidence 0 and the list of signals empty.\<close>

theorem analysis_produces_signal:
  assumes "s \<noteq> []"
  shows "\<exists>a. analyzeSymbol lib (Some th) lastAnalysis (Some s) (Some md) = (Inr (Some a), Some a)
           \<and> an_symbol a = s
           \<and> an_recommendation a = ov_signal (calculateOverallSignal (an_timeframes a))
           \<and> an_confidence a = calculateConfidence (an_timeframes a)
           \<and> 0 \<le> an_confidence a \<and> an_confidence a \<le> 1
           \<and> (insufficient_data md \<longrightarrow>
                 an_recommendation a = SigNeutral \<and> an_confidence a = 0 \<and> an_signals a = [])"
proof -
  let ?ind = "\<lambda>tf. \<lparr> ind_nadaraya = NadarayaWatson_analyzeMultiTimeframe lib md tf,
                      ind_rsi = RSI_analyzeMultiTimeframe lib md tf,
                      ind_ma = MovingAverages_analyzeMultiTimeframe lib md tf \<rparr>"
  obtain a4 where a4: "analyzeTimeframe (Some th) TF4h (?ind TF4h) = Inr a4"
    using analyzeTimeframe_total by blast
  obtain a1 where a1: "analyzeTimeframe (Some th) TF1h (?ind TF1h) = Inr a1"
    using analyzeTimeframe_total by blast
  obtain a15 where a15: "analyzeTimeframe (Some th) TF15m (?ind TF15m) = Inr a15"
    using analyzeTimeframe_total by blast
  define tfs where "tfs = (\<lambda>tf. if tf = TF4h then a4 else if tf = TF1h then a1 else a15)"
  define a where
    "a = \<lparr> an_symbol = s, an_timeframes = tfs,
           an_overall = calculateOverallSignal tfs,
           an_signals = generateSignalList (calculateOverallSignal tfs) tfs,
           an_confidence = calculateConfidence tfs,
           an_recommendation = ov_signal (calculateOverallSignal tfs) \<rparr>"
  have run: "analyzeSymbol lib (Some th) lastAnalysis (Some s) (Some md) = (Inr (Some a), Some a)"
    using assms a4 a1 a15 by (simp add: analyzeSymbol_def Let_def a_def tfs_def)
  have props: "an_symbol a = s
        \<and> an_recommendation a = ov_signal (calculateOverallSignal (an_timeframes a))
        \<and> an_confidence a = calculateConfidence (an_timeframes a)
        \<and> 0 \<le> an_confidence a \<and> an_confidence a \<le> 1"
    using confidence_bounds [of tfs] by (simp add: a_def)
  have quiet: "insufficient_data md \<longrightarrow>
                 an_recommendation a = SigNeutral \<and> an_confidence a = 0 \<and> an_signals a = []"
  proof
    assume ins: "insufficient_data md"
    have q: "analyzeTimeframe (Some th) tf (?ind tf) = Inr quiet_analysis"
      if "tf \<in> set analysed_timeframes" for tf
      by (rule analyzeTimeframe_no_reading) (simp_all add: insufficient_no_reading [OF ins that])
    have "a4 = quiet_analysis" "a1 = quiet_analysis" "a15 = quiet_analysis"
      using q [of TF4h] q [of TF1h] q [of TF15m] a4 a1 a15
      by (simp_all add: analysed_timeframes_def)
    then have all: "\<forall>tf \<in> set analysed_timeframes. tfs tf = quiet_analysis"
      by (simp add: tfs_def)
    have sig: "ta_signal (tfs tf) = SigNeutral" if "tf \<in> set analysed_timeframes" for tf
      using all that by (simp add: quiet_analysis_def)
    have "generateSignalList (calculateOverallSignal tfs) tfs = []"
      using quiet_overall(1) [OF all] sig
      by (simp add: generateSignalList_def analysed_timeframes_def)
    with quiet_overall [OF all]
    show "an_recommendation a = SigNeutral \<and> an_confidence a = 0 \<and> an_signals a = []"
      by (simp add: a_def)
  qed
  from run props quiet show ?thesis by (intro exI [of _ a]) simp
qed

lemma firing_readings:
  assumes "tf \<in> set analysed_timeframes"
  shows "NadarayaWatson_analyzeMultiTimeframe firing_lib full_candles tf
           = Some \<lparr> nw_direction = Lower, nw_percentage = 5 / 2 \<rparr>"
    and "RSI_analyzeMultiTimeframe firing_lib full_candles tf
           = Some \<lparr> rsi_sig = Oversold, rsi_value = 18, rsi_hasRecent = True \<rparr>"
    and "MovingAverages_analyzeMultiTimeframe firing_lib full_candles tf = None"
  using assms
  by (simp_all add: NadarayaWatson_analyzeMultiTimeframe_def RSI_analyzeMultiTimeframe_def
      MovingAverages_analyzeMultiTimeframe_def firing_lib_def full_candles_def)

lemma long_timeframe:
  "analyzeTimeframe (Some (\<lambda>tf. None)) tf
     \<lparr> ind_nadaraya = Some \<lparr> nw_direction = Lower, nw_percentage = 5 / 2 \<rparr>,
       ind_rsi = Some \<lparr> rsi_sig = Oversold, rsi_value = 18, rsi_hasRecent = True \<rparr>,
       ind_ma = None \<rparr> = Inr long_analysis"
  by (simp add: analyzeTimeframe_def or_default_def long_analysis_def Let_def)

lemma long_overall:
  "ov_signal (calculateOverallSignal (\<lambda>tf. long_analysis)) = SigLong"
  "calculateConfidence (\<lambda>tf. long_analysis) = 7 / 25"
  by (simp_all add: calculateOverallSignal_def calculateConfidence_def long_analysis_def
      analysed_timeframes_def weights_def strength_score_def Let_def)

lemma firing_run:
  "an_timeframes (the (snd (analyzeSymbol firing_lib (Some (\<lambda>tf. None)) None
                              (Some ''BTCUSDT'') (Some full_candles))))
     = (\<lambda>tf. long_analysis)"
proof -
  have "TF4h \<in> set analysed_timeframes" "TF1h \<in> set analysed_timeframes"
    "TF15m \<in> set analysed_timeframes"
    by (simp_all add: analysed_timeframes_def)
  then show ?thesis
    by (simp add: analyzeSymbol_def firing_readings long_timeframe Let_def fun_eq_iff)
qed

text \<open>C9, as stated, fails: without market data, or without a symbol, \<open>analyzeSymbol\<close>
  returns \<open>null\<close> and no Signal; and with a threshold table configured as \<open>null\<close> the
  exception raised in \<open>analyzeTimeframe\<close> is rethrown.\<close>

theorem missing_data_counterexample:
  "analyzeSymbol firing_lib (Some (\<lambda>tf. None)) None (Some ''BTCUSDT'') None = (Inr None, None)
   \<and> analyzeSymbol firing_lib (Some (\<lambda>tf. None)) None None (Some full_candles)
       = (Inr None, None)
   \<and> analyzeSymbol firing_lib None None (Some ''BTCUSDT'') (Some full_candles)
       = (Inl TypeError, None)"
  by (simp add: sig_defs firing_lib_def full_candles_def)

text \<open>C9, amended, on market data without candles (neutral, confidence 0) and with two hundred
  candles per timeframe (long, confidence 0.28).\<close>

theorem analysis_produces_signal_witness:
  "insufficient_data no_candles
   \<and> (\<exists>a. analyzeSymbol firing_lib (Some (\<lambda>tf. None)) None (Some ''BTCUSDT'') (Some no_candles)
             = (Inr (Some a), Some a)
          \<and> an_recommendation a = SigNeutral \<and> an_confidence a = 0 \<and> an_signals a = [])
   \<and> (\<exists>a. analyzeSymbol firing_lib (Some (\<lambda>tf. None)) None (Some ''BTCUSDT'') (Some full_candles)
             = (Inr (Some a), Some a)
          \<and> an_recommendation a = SigLong \<and> an_confidence a = 7 / 25)"
proof -
  have i: "insufficient_data no_candles"
    by (simp add: insufficient_data_def no_candles_def analysed_timeframes_def)
  have n: "''BTCUSDT'' \<noteq> []" by simp
  note T = analysis_produces_signal [OF n, of firing_lib "\<lambda>tf. None" None]
  from T [of no_candles] i
  have a: "\<exists>a. analyzeSymbol firing_lib (Some (\<lambda>tf. None)) None (Some ''BTCUSDT'') (Some no_candles)
             = (Inr (Some a), Some a)
          \<and> an_recommendation a = SigNeutral \<and> an_confidence a = 0 \<and> an_signals a = []"
    by (elim exE conjE) (intro exI conjI, assumption, simp_all)
  from T [of full_candles] obtain b where
    run: "analyzeSymbol firing_lib (Some (\<lambda>tf. None)) None (Some ''BTCUSDT'') (Some full_candles)
            = (Inr (Some b), Some b)"
    and rec: "an_recommendation b = ov_signal (calculateOverallSignal (an_timeframes b))"
    and conf: "an_confidence b = calculateConfidence (an_timeframes b)"
    by (elim exE conjE)
  from firing_run run have "an_timeframes b = (\<lambda>tf. long_analysis)" by simp
  with rec conf have "an_recommendation b = SigLong \<and> an_confidence b = 7 / 25"
    by (simp add: long_overall)
  with run
  have b: "\<exists>a. analyzeSymbol firing_lib (Some (\<lambda>tf. None)) None (Some ''BTCUSDT'') (Some full_candles)
             = (Inr (Some a), Some a)
          \<and> an_recommendation a = SigLong \<and> an_confidence a = 7 / 25"
    by (intro exI [of _ b]) simp
  from i a b show ?thesis by (intro conjI)
qed

end
